theory Spec2Isabelle
  imports Complex_Main
begin

section \<open>Nano-Navigator service worker: request dispatch and retry\<close>

text \<open>
  A shallow embedding of \<^verbatim>\<open>src/nano-navigator/service_worker.js\<close>: the context-menu
  click listener, \<^verbatim>\<open>runAiTask\<close>, \<^verbatim>\<open>executeCloudAiTask\<close> with its retry loop, the
  message listener for custom prompts and translations, and the submit handlers of the two
  parameter modals.

  JavaScript strings are modelled as \<^typ>\<open>string\<close>, holding the UTF-8 bytes of the text.
  The program only concatenates strings, tests them for emptiness, scans them for the ASCII
  characters \<^verbatim>\<open><\<close> and \<^verbatim>\<open>>\<close> and trims white space; on well-formed text
  these operations are the same on the UTF-8 form as on the UTF-16 form.
\<close>

subsection \<open>Sanitisation: \<^verbatim>\<open>text.replace(/<[^>]*>?/gm, '')\<close>\<close>

text \<open>
  One match of the pattern starts at a \<^verbatim>\<open><\<close>, takes the longest run of characters other
  than \<^verbatim>\<open>>\<close> (the class \<^verbatim>\<open>[^>]\<close> also matches line breaks) and then one
  \<^verbatim>\<open>>\<close> when there is one. \<open>after_match cs\<close> is what is left of the input \<open>cs\<close> that
  follows the opening \<^verbatim>\<open><\<close> once the match has ended. The pattern has no anchors,
  so the flag \<^verbatim>\<open>m\<close> changes nothing; with the flag \<^verbatim>\<open>g\<close> every match is replaced
  by the empty string, scanning from left to right.
\<close>

definition after_match :: "string \<Rightarrow> string" where
  "after_match cs =
     (case dropWhile (\<lambda>c. c \<noteq> CHR ''>'') cs of
        [] \<Rightarrow> []
      | c # rest \<Rightarrow> rest)"

lemma length_after_match: "length (after_match cs) \<le> length cs"
proof -
  define d where "d = dropWhile (\<lambda>c. c \<noteq> CHR ''>'') cs"
  have "length d \<le> length cs"
    unfolding d_def by (rule length_dropWhile_le)
  moreover have "after_match cs = (case d of [] \<Rightarrow> [] | c # rest \<Rightarrow> rest)"
    by (simp only: after_match_def d_def)
  ultimately show ?thesis
    by (cases d) simp_all
qed

function plainText :: "string \<Rightarrow> string" where
  "plainText [] = []"
| "plainText (c # cs) =
     (if c = CHR ''<'' then plainText (after_match cs) else c # plainText cs)"
  by pat_completeness auto
termination
  by (relation "measure length") (simp_all add: length_after_match less_Suc_eq_le)

subsection \<open>JSON values and the generated text of a response\<close>

text \<open>
  The value \<^verbatim>\<open>response.json()\<close> resolves to. A number is the value of the parsed
  double: a rational, or an infinity when the literal overflows (\<open>JInfinity True\<close> is the
  negative one). An object is the list of its own properties.
\<close>

datatype json =
    JNull
  | JBool bool
  | JNum rat
  | JInfinity bool
  | JStr string
  | JArr "json list"
  | JObj "(string \<times> json) list"

text \<open>
  The result of a property read or of an optional chain is a \<open>json option\<close>, where \<open>None\<close>
  is \<^verbatim>\<open>undefined\<close>. \<open>truthy\<close> is the test of \<^verbatim>\<open>if (generatedText)\<close>:
  \<^verbatim>\<open>undefined\<close>, \<^verbatim>\<open>null\<close>, \<^verbatim>\<open>false\<close>, zero and the empty string are
  falsy, every other value (any object or array too) is truthy.
\<close>

fun truthy :: "json option \<Rightarrow> bool" where
  "truthy None = False"
| "truthy (Some JNull) = False"
| "truthy (Some (JBool b)) = b"
| "truthy (Some (JNum q)) = (q \<noteq> 0)"
| "truthy (Some (JInfinity neg)) = True"
| "truthy (Some (JStr s)) = (s \<noteq> [])"
| "truthy (Some (JArr xs)) = True"
| "truthy (Some (JObj kvs)) = True"

text \<open>
  \<open>get_member v k\<close> is \<^verbatim>\<open>v.k\<close> for a value \<open>v\<close> that is neither \<^verbatim>\<open>null\<close> nor
  \<^verbatim>\<open>undefined\<close> and a name \<open>k\<close> among \<^verbatim>\<open>candidates\<close>, \<^verbatim>\<open>content\<close>,
  \<^verbatim>\<open>parts\<close>, \<^verbatim>\<open>text\<close>: only an object can have such a property. \<open>get_index0 v\<close> is
  \<^verbatim>\<open>v[0]\<close>: the first element of an array, the first character of a string, the property
  \<^verbatim>\<open>0\<close> of an object.
\<close>

fun get_member :: "json \<Rightarrow> string \<Rightarrow> json option" where
  "get_member (JObj kvs) k = map_of kvs k"
| "get_member v k = None"

fun get_index0 :: "json \<Rightarrow> json option" where
  "get_index0 (JArr xs) = (case xs of [] \<Rightarrow> None | x # rest \<Rightarrow> Some x)"
| "get_index0 (JStr s) = (case s of [] \<Rightarrow> None | c # rest \<Rightarrow> Some (JStr [c]))"
| "get_index0 (JObj kvs) = map_of kvs ''0''"
| "get_index0 v = None"

text \<open>
  The optional chaining operator \<^verbatim>\<open>?.\<close>: \<^verbatim>\<open>undefined\<close> when the value on its left is
  \<^verbatim>\<open>undefined\<close> or \<^verbatim>\<open>null\<close>, the read otherwise.
\<close>

fun opt_chain :: "json option \<Rightarrow> (json \<Rightarrow> json option) \<Rightarrow> json option" where
  "opt_chain None f = None"
| "opt_chain (Some JNull) f = None"
| "opt_chain (Some v) f = f v"

subsection \<open>Errors, promises and responses\<close>

text \<open>
  The exceptions that travel through \<^verbatim>\<open>executeCloudAiTask\<close>: the three that the function
  creates itself, and \<open>Thrown m\<close> for one raised by the platform with the message \<open>m\<close> (a
  rejected \<^verbatim>\<open>fetch\<close>, a body that cannot be read or parsed, a property read on
  \<^verbatim>\<open>null\<close>).
\<close>

datatype js_error =
    HttpError nat string
  | MalformedResponse
  | MaxRetries
  | Thrown string

text \<open>The decimal digits of a number, as a template literal prints \<^verbatim>\<open>response.status\<close>.\<close>

fun decimal :: "nat \<Rightarrow> string" where
  "decimal n =
     (if n < 10 then [char_of (48 + n)]
      else decimal (n div 10) @ [char_of (48 + n mod 10)])"

declare decimal.simps [simp del]

fun message :: "js_error \<Rightarrow> string" where
  "message (HttpError st errorText) = ''HTTP error '' @ decimal st @ '': '' @ errorText"
| "message MalformedResponse = ''Received an empty or malformed response from the API.''"
| "message MaxRetries = ''Maximum retry attempts reached.''"
| "message (Thrown m) = m"

text \<open>
  An awaited promise has settled: it is rejected with an error (kept by its message) or
  fulfilled with a value. The model covers the runs in which every awaited promise settles.
\<close>

datatype 'a settled = Rejected string | Fulfilled 'a

record response =
  status :: nat
  body_text :: "string settled"
  body_json :: "json settled"

definition ok :: "response \<Rightarrow> bool" where
  "ok r = (200 \<le> status r \<and> status r \<le> 299)"

text \<open>
  \<^verbatim>\<open>result.candidates?.[0]?.content?.parts?.[0]?.text\<close>. The first read has no
  \<^verbatim>\<open>?.\<close>: it throws a TypeError when the parsed body is \<^verbatim>\<open>null\<close>.
\<close>

definition generatedText :: "json \<Rightarrow> js_error + json option" where
  "generatedText result =
     (if result = JNull
      then Inl (Thrown ''Cannot read properties of null (reading 'candidates')'')
      else Inr
        (opt_chain
          (opt_chain
            (opt_chain
              (opt_chain
                (opt_chain (get_member result ''candidates'') get_index0)
                (\<lambda>v. get_member v ''content''))
              (\<lambda>v. get_member v ''parts''))
            get_index0)
          (\<lambda>v. get_member v ''text'')))"

text \<open>
  The body of the \<^verbatim>\<open>try\<close> block (lines 175 to 193), given how the \<^verbatim>\<open>fetch\<close> of this
  attempt settled: \<open>Inr v\<close> when the block returns \<open>v\<close>, \<open>Inl e\<close> when it throws \<open>e\<close>.
\<close>

definition attempt_body :: "response settled \<Rightarrow> js_error + json" where
  "attempt_body outcome =
     (case outcome of
        Rejected m \<Rightarrow> Inl (Thrown m)
      | Fulfilled r \<Rightarrow>
          if \<not> ok r then
            (case body_text r of
               Rejected m \<Rightarrow> Inl (Thrown m)
             | Fulfilled errorText \<Rightarrow> Inl (HttpError (status r) errorText))
          else
            (case body_json r of
               Rejected m \<Rightarrow> Inl (Thrown m)
             | Fulfilled result \<Rightarrow>
                 (case generatedText result of
                    Inl e \<Rightarrow> Inl e
                  | Inr g \<Rightarrow>
                      (case g of
                         None \<Rightarrow> Inl MalformedResponse
                       | Some v \<Rightarrow> if truthy g then Inr v else Inl MalformedResponse))))"

subsection \<open>The request and the effects of the service worker\<close>

text \<open>
  The object \<^verbatim>\<open>payload\<close> of \<^verbatim>\<open>executeCloudAiTask\<close>, field by field. The temperature is
  the decimal literal \<^verbatim>\<open>0.2\<close>, which \<^verbatim>\<open>JSON.stringify\<close> prints as it is written.
\<close>

record part =
  part_text :: string

record content =
  parts :: "part list"

record generation_config =
  temperature :: rat

record payload =
  contents :: "content list"
  systemInstruction :: content
  generationConfig :: generation_config

record http_request =
  url :: string
  http_method :: string
  headers :: "(string \<times> string) list"
  body :: payload

text \<open>The functions that \<^verbatim>\<open>chrome.scripting.executeScript\<close> injects into the page.\<close>

datatype injected =
    ShowApiKeyModal
  | ShowPromptModal string
  | ShowTranslationModal string

datatype reply = ReplySuccess | ReplyError string

text \<open>
  What the service worker does to the outside, in the order in which it does it. A tab is
  its numeric id. The title and the content of a result modal may be \<^verbatim>\<open>undefined\<close>
  (\<open>None\<close>); the content is the generated value or a string.
\<close>

datatype event =
    Fetch http_request
  | SetTimeout nat
  | InjectProcessingModal nat string
  | InjectResultModal nat "string option" "json option"
  | HideProcessingModal nat
  | ExecuteScript nat injected
  | ConsoleError string js_error
  | SendResponse reply

fun requests :: "event list \<Rightarrow> http_request list" where
  "requests [] = []"
| "requests (Fetch rq # evs) = rq # requests evs"
| "requests (ev # evs) = requests evs"

fun instruction :: "http_request \<Rightarrow> string list" where
  "instruction rq = map part_text (parts (systemInstruction (body rq)))"

fun user_content :: "http_request \<Rightarrow> string list" where
  "user_content rq = concat (map (\<lambda>c. map part_text (parts c)) (contents (body rq)))"

subsection \<open>\<^verbatim>\<open>executeCloudAiTask\<close>\<close>

definition GEMINI_MODEL :: string where
  "GEMINI_MODEL = ''gemini-2.5-flash-preview-05-20''"

definition API_URL_BASE :: string where
  "API_URL_BASE = ''https://generativelanguage.googleapis.com/v1beta/models/''"

definition build_payload :: "string \<Rightarrow> string \<Rightarrow> payload" where
  "build_payload txt systemPrompt =
     \<lparr> contents = [\<lparr> parts = [\<lparr> part_text = ''Original Text: '' @ plainText txt \<rparr>] \<rparr>],
       systemInstruction = \<lparr> parts = [\<lparr> part_text = systemPrompt \<rparr>] \<rparr>,
       generationConfig = \<lparr> temperature = 2 / 10 \<rparr> \<rparr>"

definition apiUrl :: "string \<Rightarrow> string" where
  "apiUrl key = API_URL_BASE @ GEMINI_MODEL @ '':generateContent?key='' @ key"

definition fetch_request :: "string \<Rightarrow> string \<Rightarrow> string \<Rightarrow> http_request" where
  "fetch_request key txt systemPrompt =
     \<lparr> url = apiUrl key,
       http_method = ''POST'',
       headers = [(''Content-Type'', ''application/json'')],
       body = build_payload txt systemPrompt \<rparr>"

text \<open>
  The loop \<^verbatim>\<open>for (let attempt = 0; attempt < 3; attempt++)\<close> from the value \<open>attempt\<close>
  on, with the statement after it. \<open>net k\<close> is how the \<^verbatim>\<open>fetch\<close> of attempt \<open>k\<close>
  settles. The result is what the function returns (\<open>Inr\<close>) or throws (\<open>Inl\<close>), with the
  effects in order.
\<close>

function retry_loop ::
  "(nat \<Rightarrow> response settled) \<Rightarrow> http_request \<Rightarrow> nat \<Rightarrow> (js_error + json) \<times> event list"
where
  "retry_loop net rq attempt =
     (if attempt < 3 then
        (case attempt_body (net attempt) of
           Inr generated \<Rightarrow> (Inr generated, [Fetch rq])
         | Inl error \<Rightarrow>
             if attempt = 2 then (Inl error, [Fetch rq])
             else
               (case retry_loop net rq (attempt + 1) of
                  (res, evs) \<Rightarrow> (res, Fetch rq # SetTimeout (1000 * 2 ^ attempt) # evs)))
      else (Inl MaxRetries, []))"
  by pat_completeness auto
termination
  by (relation "measure (\<lambda>(net, rq, attempt). 3 - attempt)") auto

declare retry_loop.simps [simp del]

definition executeCloudAiTask ::
  "string \<Rightarrow> (nat \<Rightarrow> response settled) \<Rightarrow> string \<Rightarrow> string \<Rightarrow> (js_error + json) \<times> event list"
where
  "executeCloudAiTask key net txt systemPrompt =
     retry_loop net (fetch_request key txt systemPrompt) 0"

subsection \<open>\<^verbatim>\<open>runAiTask\<close> and the context-menu click listener\<close>

definition SUBMENU_SUMMARIZE_ID :: string where
  "SUBMENU_SUMMARIZE_ID = ''NANO_SUMMARIZE''"

definition SUBMENU_REWRITE_ID :: string where
  "SUBMENU_REWRITE_ID = ''NANO_REWRITE''"

definition SUBMENU_PROOFREAD_ID :: string where
  "SUBMENU_PROOFREAD_ID = ''NANO_PROOFREAD''"

definition SUBMENU_CUSTOM_PROMPT_ID :: string where
  "SUBMENU_CUSTOM_PROMPT_ID = ''NANO_CUSTOM''"

definition SUBMENU_TRANSLATE_ID :: string where
  "SUBMENU_TRANSLATE_ID = ''NANO_TRANSLATE''"

definition ACTION_SET_API_KEY :: string where
  "ACTION_SET_API_KEY = ''SET_API_KEY''"

text \<open>
  The \<^verbatim>\<open>switch\<close> of \<^verbatim>\<open>runAiTask\<close>: the value of \<^verbatim>\<open>result\<close> or the error thrown,
  the effects, and the value of \<^verbatim>\<open>title\<close>. With no matching case both variables stay
  \<^verbatim>\<open>undefined\<close>.
\<close>

definition task_switch ::
  "string \<Rightarrow> (nat \<Rightarrow> response settled) \<Rightarrow> string \<Rightarrow> string \<Rightarrow>
     (js_error + json option) \<times> event list \<times> string option"
where
  "task_switch key net menuItemId selectedText =
     (if menuItemId = SUBMENU_SUMMARIZE_ID then
        (case executeCloudAiTask key net selectedText
           ''You are an expert summarizer. Provide the key points from the context as a short, concise, bulleted list using markdown format.'' of
           (res, evs) \<Rightarrow> (map_sum id Some res, evs, Some ''AI Summary (Key Points)''))
      else if menuItemId = SUBMENU_REWRITE_ID then
        (case executeCloudAiTask key net selectedText
           ''Rewrite the following text to simplify it for a 5th-grade reading level. Keep the length similar.'' of
           (res, evs) \<Rightarrow> (map_sum id Some res, evs, Some ''AI Rewrite (Simplified)''))
      else if menuItemId = SUBMENU_PROOFREAD_ID then
        (case executeCloudAiTask key net selectedText
           ''Proofread the text provided. First, output the fully corrected text. Second, list all significant changes made (grammar, spelling, syntax) in a bulleted list format.'' of
           (res, evs) \<Rightarrow> (map_sum id Some res, evs, Some ''Proofread Corrections''))
      else (Inr None, [], None))"

definition runAiTask ::
  "string \<Rightarrow> (nat \<Rightarrow> response settled) \<Rightarrow> string \<Rightarrow> string \<Rightarrow> nat \<Rightarrow> event list"
where
  "runAiTask key net menuItemId selectedText tabId =
     InjectProcessingModal tabId ''Querying Cloud AI...'' #
     (case task_switch key net menuItemId selectedText of
        (Inr result, evs, title) \<Rightarrow> evs @ [InjectResultModal tabId title result]
      | (Inl error, evs, title) \<Rightarrow>
          evs @
          [ConsoleError (''AI Task Error for '' @ menuItemId @ '':'') error,
           InjectResultModal tabId (Some ''Cloud AI Error'')
             (Some (JStr (''Error: '' @
               (if message error \<noteq> [] then message error
                else ''API request failed. Check your API key and connection.''))))]) @
     [HideProcessingModal tabId]"

text \<open>
  The argument \<^verbatim>\<open>info\<close> of the click listener; \<^verbatim>\<open>selectionText\<close> is absent when
  nothing is selected.
\<close>

record click_info =
  menuItemId :: string
  selectionText :: "string option"

text \<open>
  The text of the configuration message. Its gear sign is the two code points U+2699 and
  U+FE0F, here in UTF-8.
\<close>

definition CONFIGURATION_REQUIRED :: string where
  "CONFIGURATION_REQUIRED =
     ''Please set your Gemini API key using the ''
     @ [CHR 0x27, CHR 0xE2, CHR 0x9A, CHR 0x99, CHR 0xEF, CHR 0xB8, CHR 0x8F]
     @ '' Set Gemini API Key...'' @ [CHR 0x27]
     @ '' menu option before running AI tasks.''"

text \<open>
  The listener of \<^verbatim>\<open>chrome.contextMenus.onClicked\<close> (lines 70 to 114). \<open>key\<close> is the
  value of the global \<^verbatim>\<open>GEMINI_API_KEY\<close> when the listener runs.
\<close>

definition onClicked ::
  "string \<Rightarrow> (nat \<Rightarrow> response settled) \<Rightarrow> click_info \<Rightarrow> nat \<Rightarrow> event list"
where
  "onClicked key net info tabId =
     (if menuItemId info = ACTION_SET_API_KEY then [ExecuteScript tabId ShowApiKeyModal]
      else
        (case selectionText info of
           None \<Rightarrow> []
         | Some selectedText \<Rightarrow>
             if selectedText = [] \<or> tabId = 0 \<or> menuItemId info = ''AI_TASKS_GROUP'' then []
             else if key = [] then
               [InjectResultModal tabId (Some ''Configuration Required'')
                  (Some (JStr CONFIGURATION_REQUIRED))]
             else if menuItemId info = SUBMENU_CUSTOM_PROMPT_ID then
               [HideProcessingModal tabId, ExecuteScript tabId (ShowPromptModal selectedText)]
             else if menuItemId info = SUBMENU_TRANSLATE_ID then
               [HideProcessingModal tabId, ExecuteScript tabId (ShowTranslationModal selectedText)]
             else runAiTask key net (menuItemId info) selectedText tabId))"

subsection \<open>The message listener for custom prompts and translations\<close>

text \<open>
  The messages the injected modals send, by their \<^verbatim>\<open>action\<close>: \<open>SaveApiKey apiKey\<close>,
  \<open>RunCustomPrompt selectedText customPrompt\<close> and
  \<open>RunTranslation selectedText targetLanguage\<close>.
\<close>

datatype message_request =
    SaveApiKey string
  | RunCustomPrompt string string
  | RunTranslation string string

text \<open>
  The second listener of \<^verbatim>\<open>chrome.runtime.onMessage\<close> (lines 205 to 244); \<open>tabId\<close> is
  \<^verbatim>\<open>sender.tab.id\<close>.
\<close>

definition onMessage ::
  "string \<Rightarrow> (nat \<Rightarrow> response settled) \<Rightarrow> message_request \<Rightarrow> nat \<Rightarrow> event list"
where
  "onMessage key net request tabId =
     (case request of
        SaveApiKey apiKey \<Rightarrow> []
      | RunCustomPrompt selectedText customPrompt \<Rightarrow>
          if tabId = 0 then []
          else
            InjectProcessingModal tabId ''Running Custom Prompt...'' #
            (case executeCloudAiTask key net selectedText customPrompt of
               (Inr result, evs) \<Rightarrow>
                 evs @
                 [InjectResultModal tabId (Some ''Custom Prompt Result'') (Some result),
                  SendResponse ReplySuccess]
             | (Inl error, evs) \<Rightarrow>
                 evs @
                 [InjectResultModal tabId (Some ''Prompt Error'') (Some (JStr (message error))),
                  SendResponse (ReplyError (message error))]) @
            [HideProcessingModal tabId]
      | RunTranslation selectedText targetLanguage \<Rightarrow>
          if tabId = 0 then []
          else
            InjectProcessingModal tabId (''Translating to '' @ targetLanguage @ ''...'') #
            (case executeCloudAiTask key net selectedText
               (''You are an expert translator. Translate the following text strictly into ''
                @ targetLanguage @ '' and provide only the translated text as the output.'') of
               (Inr result, evs) \<Rightarrow>
                 evs @
                 [InjectResultModal tabId (Some (''Translation: '' @ targetLanguage)) (Some result),
                  SendResponse ReplySuccess]
             | (Inl error, evs) \<Rightarrow>
                 evs @
                 [InjectResultModal tabId (Some ''Translation Error'') (Some (JStr (message error))),
                  SendResponse (ReplyError (message error))]) @
            [HideProcessingModal tabId])"

subsection \<open>The submit handlers of the parameter modals\<close>

text \<open>
  \<^verbatim>\<open>String.prototype.trim\<close> removes white space and line terminators from both ends:
  U+0009 to U+000D, U+0020, U+00A0, U+1680, U+2000 to U+200A, U+2028, U+2029, U+202F,
  U+205F, U+3000 and U+FEFF, listed here in UTF-8.
\<close>

definition white_space :: "string list" where
  "white_space =
     map (\<lambda>c. [c]) [CHR 0x09, CHR 0x0A, CHR 0x0B, CHR 0x0C, CHR 0x0D, CHR 0x20]
     @ [[CHR 0xC2, CHR 0xA0], [CHR 0xE1, CHR 0x9A, CHR 0x80]]
     @ map (\<lambda>c. [CHR 0xE2, CHR 0x80, c])
         [CHR 0x80, CHR 0x81, CHR 0x82, CHR 0x83, CHR 0x84, CHR 0x85, CHR 0x86, CHR 0x87,
          CHR 0x88, CHR 0x89, CHR 0x8A, CHR 0xA8, CHR 0xA9, CHR 0xAF]
     @ [[CHR 0xE2, CHR 0x81, CHR 0x9F], [CHR 0xE3, CHR 0x80, CHR 0x80],
        [CHR 0xEF, CHR 0xBB, CHR 0xBF]]"

text \<open>\<open>strip ws s\<close> removes from the front of \<open>s\<close> every leading sequence listed in \<open>ws\<close>.\<close>

function strip :: "string list \<Rightarrow> string \<Rightarrow> string" where
  "strip ws s =
     (case find (\<lambda>w. w \<noteq> [] \<and> take (length w) s = w) ws of
        None \<Rightarrow> s
      | Some w \<Rightarrow> strip ws (drop (length w) s))"
  by pat_completeness auto
termination
proof (relation "measure (\<lambda>(ws, s). length s)")
  show "wf (measure (\<lambda>(ws, s). length s))"
    by simp
next
  fix ws :: "string list" and s w :: string
  assume "find (\<lambda>w. w \<noteq> [] \<and> take (length w) s = w) ws = Some w"
  then have w: "w \<noteq> []" "take (length w) s = w"
    by (auto simp: find_Some_iff)
  from w(2) have "length (take (length w) s) = length w"
    by simp
  then have "length w \<le> length s"
    by simp
  with w(1) show "((ws, drop (length w) s), (ws, s)) \<in> measure (\<lambda>(ws, s). length s)"
    by (cases w) auto
qed

declare strip.simps [simp del]

definition trim :: "string \<Rightarrow> string" where
  "trim s = rev (strip (map rev white_space) (rev (strip white_space s)))"

datatype page_event =
    SendMessage message_request
  | RemoveModal string
  | Alert string

text \<open>
  The \<^verbatim>\<open>onclick\<close> handlers of the buttons \<^verbatim>\<open>translate-submit\<close> (lines 444 to 458)
  and \<^verbatim>\<open>nano-prompt-submit\<close> (lines 385 to 395); \<open>input\<close> is the value of the input
  element.
\<close>

definition translate_submit :: "string \<Rightarrow> string \<Rightarrow> page_event list" where
  "translate_submit selectedText input =
     (let targetLanguage = trim input in
      if targetLanguage \<noteq> [] then
        [SendMessage (RunTranslation selectedText targetLanguage),
         RemoveModal ''translation-input-modal'']
      else [Alert ''Please enter a target language.''])"

definition prompt_submit :: "string \<Rightarrow> string \<Rightarrow> page_event list" where
  "prompt_submit selectedText input =
     (let customPrompt = trim input in
      if customPrompt \<noteq> [] then
        [SendMessage (RunCustomPrompt selectedText customPrompt),
         RemoveModal ''nano-prompt-input-modal'']
      else [Alert ''Please enter a custom instruction.''])"

subsection \<open>A response as the endpoint sends it\<close>

text \<open>
  A response with status 200 whose body holds the value \<open>v\<close> at the path
  \<^verbatim>\<open>candidates[0].content.parts[0].text\<close>.
\<close>

definition generated_response :: "json \<Rightarrow> response" where
  "generated_response v =
     \<lparr> status = 200,
       body_text = Fulfilled [],
       body_json = Fulfilled
         (JObj [(''candidates'',
            JArr [JObj [(''content'', JObj [(''parts'', JArr [JObj [(''text'', v)]])])]])]) \<rparr>"

subsection \<open>The per-line reading of the sanitisation\<close>

text \<open>
  Claim C9 reads the replacement as working line by line. This is that reading, written
  out for comparison with \<open>plainText\<close>: the text is split at its line feeds, every line
  is sanitised on its own, and the lines are joined again.
\<close>

fun split_lines :: "string \<Rightarrow> string list" where
  "split_lines [] = [[]]"
| "split_lines (c # cs) =
     (if c = CHR 0x0A then [] # split_lines cs
      else (case split_lines cs of [] \<Rightarrow> [[c]] | l # ls \<Rightarrow> (c # l) # ls))"

fun join_lines :: "string list \<Rightarrow> string" where
  "join_lines [] = []"
| "join_lines [l] = l"
| "join_lines (l # ls) = l @ CHR 0x0A # join_lines ls"

definition plainText_per_line :: "string \<Rightarrow> string" where
  "plainText_per_line s = join_lines (map plainText (split_lines s))"

subsection \<open>Marked-up text\<close>





section \<open>Auxiliary facts\<close>

lemma retry_loop_last:
  "retry_loop net rq 2 =
     (case attempt_body (net 2) of
        Inr v \<Rightarrow> (Inr v, [Fetch rq])
      | Inl e \<Rightarrow> (Inl e, [Fetch rq]))"
  by (subst retry_loop.simps) (simp split: sum.splits)

lemma retry_loop_second:
  "retry_loop net rq (Suc 0) =
     (case attempt_body (net 1) of
        Inr v \<Rightarrow> (Inr v, [Fetch rq])
      | Inl e \<Rightarrow>
          (fst (retry_loop net rq 2), Fetch rq # SetTimeout 2000 # snd (retry_loop net rq 2)))"
  by (subst retry_loop.simps) (simp split: sum.splits prod.splits add: numeral_2_eq_2)

lemma retry_loop_first:
  "retry_loop net rq 0 =
     (case attempt_body (net 0) of
        Inr v \<Rightarrow> (Inr v, [Fetch rq])
      | Inl e \<Rightarrow>
          (fst (retry_loop net rq (Suc 0)),
           Fetch rq # SetTimeout 1000 # snd (retry_loop net rq (Suc 0))))"
  by (subst retry_loop.simps) (simp split: sum.splits prod.splits)

lemma executeCloudAiTask_unfold:
  "executeCloudAiTask key net txt sp =
     (case attempt_body (net 0) of
        Inr v \<Rightarrow> (Inr v, [Fetch (fetch_request key txt sp)])
      | Inl e0 \<Rightarrow>
          (case attempt_body (net 1) of
             Inr v \<Rightarrow>
               (Inr v,
                [Fetch (fetch_request key txt sp), SetTimeout 1000,
                 Fetch (fetch_request key txt sp)])
           | Inl e1 \<Rightarrow>
               (case attempt_body (net 2) of
                  Inr v \<Rightarrow>
                    (Inr v,
                     [Fetch (fetch_request key txt sp), SetTimeout 1000,
                      Fetch (fetch_request key txt sp), SetTimeout 2000,
                      Fetch (fetch_request key txt sp)])
                | Inl e2 \<Rightarrow>
                    (Inl e2,
                     [Fetch (fetch_request key txt sp), SetTimeout 1000,
                      Fetch (fetch_request key txt sp), SetTimeout 2000,
                      Fetch (fetch_request key txt sp)]))))"
  by (simp add: executeCloudAiTask_def retry_loop_first retry_loop_second retry_loop_last
      split: sum.splits)

lemma attempt_body_not_MaxRetries: "attempt_body out \<noteq> Inl MaxRetries"
  by (auto simp: attempt_body_def generatedText_def split: settled.splits sum.splits option.splits if_splits)

lemma requests_append: "requests (xs @ ys) = requests xs @ requests ys"
  by (induction xs rule: requests.induct) simp_all

lemma requests_executeCloudAiTask:
  "\<exists>n. 1 \<le> n \<and> n \<le> 3 \<and>
     requests (snd (executeCloudAiTask key net txt sp)) = replicate n (fetch_request key txt sp)"
proof -
  let ?rq = "fetch_request key txt sp"
  have "requests (snd (executeCloudAiTask key net txt sp)) = replicate 1 ?rq
      \<or> requests (snd (executeCloudAiTask key net txt sp)) = replicate 2 ?rq
      \<or> requests (snd (executeCloudAiTask key net txt sp)) = replicate 3 ?rq"
    by (simp add: executeCloudAiTask_unfold numeral_2_eq_2 numeral_3_eq_3 split: sum.splits)
  then consider
      (one) "requests (snd (executeCloudAiTask key net txt sp)) = replicate 1 ?rq"
    | (two) "requests (snd (executeCloudAiTask key net txt sp)) = replicate 2 ?rq"
    | (three) "requests (snd (executeCloudAiTask key net txt sp)) = replicate 3 ?rq"
    by blast
  then show ?thesis
  proof cases
    case one
    then show ?thesis by (intro exI [of _ 1]) simp
  next
    case two
    then show ?thesis by (intro exI [of _ 2]) simp
  next
    case three
    then show ?thesis by (intro exI [of _ 3]) simp
  qed
qed


lemma attempt_body_generated_response:
  "attempt_body (Fulfilled (generated_response v)) =
     (if truthy (Some v) then Inr v else Inl MalformedResponse)"
  by (cases v) (simp_all add: attempt_body_def generated_response_def ok_def generatedText_def)

lemma plainText_keeps: "CHR ''<'' \<notin> set pre \<Longrightarrow> plainText (pre @ rest) = pre @ plainText rest"
  by (induction pre) auto

lemma after_match_closed:
  "CHR ''>'' \<notin> set mid \<Longrightarrow> after_match (mid @ CHR ''>'' # post) = post"
proof -
  assume "CHR ''>'' \<notin> set mid"
  then have "dropWhile (\<lambda>c. c \<noteq> CHR ''>'') (mid @ CHR ''>'' # post) = CHR ''>'' # post"
    by (induction mid) auto
  then show ?thesis
    by (simp only: after_match_def list.case)
qed

lemma after_match_open: "CHR ''>'' \<notin> set mid \<Longrightarrow> after_match mid = []"
proof -
  assume "CHR ''>'' \<notin> set mid"
  then have "dropWhile (\<lambda>c. c \<noteq> CHR ''>'') mid = []"
    by (induction mid) auto
  then show ?thesis
    by (simp only: after_match_def list.case)
qed

lemma attempt_body_Inr_iff:
  "attempt_body outcome = Inr v \<longleftrightarrow>
     (\<exists>r result. outcome = Fulfilled r \<and> ok r \<and> body_json r = Fulfilled result \<and>
        generatedText result = Inr (Some v) \<and> truthy (Some v))"
  by (auto simp: attempt_body_def split: settled.splits sum.splits option.splits if_splits)

lemma retry_loop_success:
  "attempt < 3 \<Longrightarrow> attempt_body (net attempt) = Inr v \<Longrightarrow>
     retry_loop net rq attempt = (Inr v, [Fetch rq])"
  by (subst retry_loop.simps) simp

lemma retry_loop_retry:
  "attempt < 2 \<Longrightarrow> attempt_body (net attempt) = Inl e \<Longrightarrow>
     retry_loop net rq attempt =
       (fst (retry_loop net rq (attempt + 1)),
        Fetch rq # SetTimeout (1000 * 2 ^ attempt) # snd (retry_loop net rq (attempt + 1)))"
  by (subst retry_loop.simps) (simp split: prod.splits)

lemma retry_loop_rethrow:
  "attempt_body (net 2) = Inl e \<Longrightarrow> retry_loop net rq 2 = (Inl e, [Fetch rq])"
  by (subst retry_loop.simps) simp

lemma generatedText_generated_response:
  "generatedText
     (JObj [(''candidates'',
        JArr [JObj [(''content'', JObj [(''parts'', JArr [JObj [(''text'', v)]])])]])]) =
     Inr (Some v)"
  by (simp add: generatedText_def)

lemma requests_onMessage_custom:
  "tabId \<noteq> 0 \<Longrightarrow>
     requests (onMessage key net (RunCustomPrompt selectedText customPrompt) tabId) =
       requests (snd (executeCloudAiTask key net selectedText customPrompt))"
  by (simp add: onMessage_def requests_append split: prod.splits sum.splits)

lemma requests_onMessage_translation:
  "tabId \<noteq> 0 \<Longrightarrow>
     requests (onMessage key net (RunTranslation selectedText targetLanguage) tabId) =
       requests (snd (executeCloudAiTask key net selectedText
         (''You are an expert translator. Translate the following text strictly into ''
          @ targetLanguage @ '' and provide only the translated text as the output.'')))"
  by (simp add: onMessage_def requests_append split: prod.splits sum.splits)

lemma requests_runAiTask_summarize:
  "requests (runAiTask key net SUBMENU_SUMMARIZE_ID selectedText tabId) =
     requests (snd (executeCloudAiTask key net selectedText
       ''You are an expert summarizer. Provide the key points from the context as a short, concise, bulleted list using markdown format.''))"
  by (simp add: runAiTask_def task_switch_def requests_append split: prod.splits sum.splits)

lemma requests_runAiTask_rewrite:
  "requests (runAiTask key net SUBMENU_REWRITE_ID selectedText tabId) =
     requests (snd (executeCloudAiTask key net selectedText
       ''Rewrite the following text to simplify it for a 5th-grade reading level. Keep the length similar.''))"
  by (simp add: runAiTask_def task_switch_def requests_append SUBMENU_SUMMARIZE_ID_def
      SUBMENU_REWRITE_ID_def split: prod.splits sum.splits)

lemma requests_runAiTask_proofread:
  "requests (runAiTask key net SUBMENU_PROOFREAD_ID selectedText tabId) =
     requests (snd (executeCloudAiTask key net selectedText
       ''Proofread the text provided. First, output the fully corrected text. Second, list all significant changes made (grammar, spelling, syntax) in a bulleted list format.''))"
  by (simp add: runAiTask_def task_switch_def requests_append SUBMENU_SUMMARIZE_ID_def
      SUBMENU_REWRITE_ID_def SUBMENU_PROOFREAD_ID_def split: prod.splits sum.splits)

lemma requests_runAiTask_other:
  "item \<noteq> SUBMENU_SUMMARIZE_ID \<Longrightarrow> item \<noteq> SUBMENU_REWRITE_ID \<Longrightarrow>
   item \<noteq> SUBMENU_PROOFREAD_ID \<Longrightarrow>
     requests (runAiTask key net item selectedText tabId) = []"
  by (simp add: runAiTask_def task_switch_def)

lemma instruction_fetch_request: "instruction (fetch_request key txt sp) = [sp]"
  by (simp add: fetch_request_def build_payload_def)

lemma instructions_executeCloudAiTask:
  "\<exists>n. 1 \<le> n \<and> n \<le> 3 \<and>
     map instruction (requests (snd (executeCloudAiTask key net txt sp))) = replicate n [sp]"
proof -
  obtain n where "1 \<le> n" "n \<le> 3"
    and "requests (snd (executeCloudAiTask key net txt sp)) = replicate n (fetch_request key txt sp)"
    using requests_executeCloudAiTask by blast
  then show ?thesis
    by (intro exI [of _ n]) (simp add: instruction_fetch_request del: instruction.simps)
qed

lemma bodies_executeCloudAiTask:
  "\<exists>n. 1 \<le> n \<and> n \<le> 3 \<and>
     map body (requests (snd (executeCloudAiTask key net txt sp))) =
       replicate n (build_payload txt sp)"
proof -
  obtain n where "1 \<le> n" "n \<le> 3"
    and "requests (snd (executeCloudAiTask key net txt sp)) = replicate n (fetch_request key txt sp)"
    using requests_executeCloudAiTask by blast
  then show ?thesis
    by (intro exI [of _ n]) (simp add: fetch_request_def)
qed

lemma instructions_onMessage_translation:
  "tabId \<noteq> 0 \<Longrightarrow>
     \<exists>n. 1 \<le> n \<and> n \<le> 3 \<and>
       map instruction (requests (onMessage key net (RunTranslation selectedText targetLanguage) tabId)) =
         replicate n
           [''You are an expert translator. Translate the following text strictly into ''
            @ targetLanguage @ '' and provide only the translated text as the output.'']"
  unfolding requests_onMessage_translation by (rule instructions_executeCloudAiTask)

lemma instructions_onMessage_custom:
  "tabId \<noteq> 0 \<Longrightarrow>
     \<exists>n. 1 \<le> n \<and> n \<le> 3 \<and>
       map instruction (requests (onMessage key net (RunCustomPrompt selectedText customPrompt) tabId)) =
         replicate n [customPrompt]"
  unfolding requests_onMessage_custom by (rule instructions_executeCloudAiTask)

lemma requests_runAiTask_shape:
  "\<exists>sp n. n \<le> 3 \<and>
     requests (runAiTask key net item selectedText tabId) =
       replicate n (fetch_request key selectedText sp)"
proof -
  consider (summarize) "item = SUBMENU_SUMMARIZE_ID" | (rewrite) "item = SUBMENU_REWRITE_ID"
    | (proofread) "item = SUBMENU_PROOFREAD_ID"
    | (other) "item \<noteq> SUBMENU_SUMMARIZE_ID" "item \<noteq> SUBMENU_REWRITE_ID"
        "item \<noteq> SUBMENU_PROOFREAD_ID"
    by blast
  then show ?thesis
  proof cases
    case summarize
    then show ?thesis
      using requests_executeCloudAiTask requests_runAiTask_summarize by metis
  next
    case rewrite
    then show ?thesis
      using requests_executeCloudAiTask requests_runAiTask_rewrite by metis
  next
    case proofread
    then show ?thesis
      using requests_executeCloudAiTask requests_runAiTask_proofread by metis
  next
    case other
    then have "requests (runAiTask key net item selectedText tabId) =
        replicate 0 (fetch_request key selectedText [])"
      by (simp add: requests_runAiTask_other)
    then show ?thesis
      by (intro exI [of _ "[]"] exI [of _ 0]) simp
  qed
qed

lemma requests_onClicked_shape:
  "\<exists>txt sp n. n \<le> 3 \<and>
     requests (onClicked key net info tabId) = replicate n (fetch_request key txt sp)"
proof (cases "\<exists>txt. onClicked key net info tabId = runAiTask key net (menuItemId info) txt tabId")
  case True
  then show ?thesis
    using requests_runAiTask_shape by metis
next
  case False
  then have "requests (onClicked key net info tabId) = replicate 0 (fetch_request key [] [])"
    by (auto simp: onClicked_def split: option.splits if_splits)
  then show ?thesis
    by (intro exI [of _ "[]"] exI [of _ 0]) simp
qed

lemma requests_onMessage_shape:
  "\<exists>txt sp n. n \<le> 3 \<and>
     requests (onMessage key net request tabId) = replicate n (fetch_request key txt sp)"
proof (cases "tabId = 0 \<or> (\<exists>apiKey. request = SaveApiKey apiKey)")
  case True
  then have "requests (onMessage key net request tabId) = replicate 0 (fetch_request key [] [])"
    by (auto simp: onMessage_def split: message_request.splits)
  then show ?thesis
    by (intro exI [of _ "[]"] exI [of _ 0]) simp
next
  case False
  then show ?thesis
  proof (cases request)
    case (SaveApiKey apiKey)
    with False show ?thesis by simp
  next
    case (RunCustomPrompt selectedText customPrompt)
    with False show ?thesis
      using requests_executeCloudAiTask requests_onMessage_custom by metis
  next
    case (RunTranslation selectedText targetLanguage)
    with False show ?thesis
      using requests_executeCloudAiTask requests_onMessage_translation by metis
  qed
qed

lemma requests_executeCloudAiTask_nonempty:
  "requests (snd (executeCloudAiTask key net txt sp)) \<noteq> []"
  by (simp add: executeCloudAiTask_unfold split: sum.splits)

lemma temperature_fetch_request:
  "temperature (generationConfig (body (fetch_request key txt sp))) = 2 / 10"
  by (simp add: fetch_request_def build_payload_def)

lemma strip_Nil: "strip ws [] = []"
proof -
  have "find (\<lambda>w. w \<noteq> [] \<and> take (length w) [] = w) ws = None"
    by (auto simp: find_None_iff)
  then show ?thesis
    by (subst strip.simps) simp
qed

lemma trim_Nil: "trim [] = []"
  by (simp add: trim_def strip_Nil)

lemma translate_submit_sends_nonempty:
  "SendMessage (RunTranslation txt targetLanguage) \<in> set (translate_submit selectedText input)
     \<Longrightarrow> targetLanguage \<noteq> []"
  by (auto simp: translate_submit_def Let_def split: if_splits)

lemma prompt_submit_sends_nonempty:
  "SendMessage (RunCustomPrompt txt customPrompt) \<in> set (prompt_submit selectedText input)
     \<Longrightarrow> customPrompt \<noteq> []"
  by (auto simp: prompt_submit_def Let_def split: if_splits)




lemma executeCloudAiTask_outcomes:
  "(\<exists>v. attempt_body (net 0) = Inr v \<and>
        executeCloudAiTask key net sourceText sp =
          (Inr v, [Fetch (fetch_request key sourceText sp)]))
   \<or> (\<exists>e0 v. attempt_body (net 0) = Inl e0 \<and> attempt_body (net 1) = Inr v \<and>
        executeCloudAiTask key net sourceText sp =
          (Inr v,
           [Fetch (fetch_request key sourceText sp), SetTimeout 1000,
            Fetch (fetch_request key sourceText sp)]))
   \<or> (\<exists>e0 e1 v. attempt_body (net 0) = Inl e0 \<and> attempt_body (net 1) = Inl e1 \<and>
        attempt_body (net 2) = Inr v \<and>
        executeCloudAiTask key net sourceText sp =
          (Inr v,
           [Fetch (fetch_request key sourceText sp), SetTimeout 1000,
            Fetch (fetch_request key sourceText sp), SetTimeout 2000,
            Fetch (fetch_request key sourceText sp)]))
   \<or> (\<exists>e0 e1 e2. attempt_body (net 0) = Inl e0 \<and> attempt_body (net 1) = Inl e1 \<and>
        attempt_body (net 2) = Inl e2 \<and>
        executeCloudAiTask key net sourceText sp =
          (Inl e2,
           [Fetch (fetch_request key sourceText sp), SetTimeout 1000,
            Fetch (fetch_request key sourceText sp), SetTimeout 2000,
            Fetch (fetch_request key sourceText sp)]))"
proof (cases "attempt_body (net 0)")
  case (Inr v)
  then show ?thesis by (simp add: executeCloudAiTask_unfold)
next
  case e0: (Inl e0)
  show ?thesis
  proof (cases "attempt_body (net 1)")
    case (Inr v)
    with e0 show ?thesis by (simp add: executeCloudAiTask_unfold)
  next
    case e1: (Inl e1)
    show ?thesis
    proof (cases "attempt_body (net 2)")
      case (Inr v)
      with e0 e1 show ?thesis by (simp add: executeCloudAiTask_unfold)
    next
      case (Inl e2)
      with e0 e1 show ?thesis by (simp add: executeCloudAiTask_unfold)
    qed
  qed
qed

lemma executeCloudAiTask_generated:
  "fst (executeCloudAiTask key net sourceText sp) = Inr v \<Longrightarrow>
     \<exists>k r result. k < 3 \<and> net k = Fulfilled r \<and> ok r \<and> body_json r = Fulfilled result \<and>
       generatedText result = Inr (Some v) \<and> truthy (Some v)"
proof -
  assume res: "fst (executeCloudAiTask key net sourceText sp) = Inr v"
  have "attempt_body (net 0) = Inr v \<or> attempt_body (net 1) = Inr v \<or> attempt_body (net 2) = Inr v"
    using res executeCloudAiTask_outcomes [of net key sourceText sp] by auto
  then have "\<exists>k. k < 3 \<and> attempt_body (net k) = Inr v"
  proof (elim disjE)
    assume "attempt_body (net 0) = Inr v"
    then show ?thesis by (intro exI [of _ 0]) simp
  next
    assume "attempt_body (net 1) = Inr v"
    then show ?thesis by (intro exI [of _ 1]) simp
  next
    assume "attempt_body (net 2) = Inr v"
    then show ?thesis by (intro exI [of _ 2]) simp
  qed
  then obtain k where "k < 3" and "attempt_body (net k) = Inr v"
    by blast
  then show ?thesis
    using attempt_body_Inr_iff [of "net k" v] by blast
qed

lemma strip_spaces: "strip white_space (replicate n (CHR '' '')) = []"
proof (induction n)
  case 0
  then show ?case by (simp add: strip_Nil)
next
  case (Suc n)
  have "find (\<lambda>w. w \<noteq> [] \<and> take (length w) (CHR '' '' # replicate n (CHR '' '')) = w) white_space
      = Some [CHR '' '']"
    by (simp add: white_space_def)
  then have "strip white_space (CHR '' '' # replicate n (CHR '' ''))
      = strip white_space (replicate n (CHR '' ''))"
    by (subst strip.simps) simp
  with Suc show ?case by simp
qed

lemma trim_spaces: "trim (replicate n (CHR '' '')) = []"
  by (simp add: trim_def strip_spaces strip_Nil)

lemma trim_white_space_example:
  "trim [CHR 0x20, CHR 0x09, CHR 0x0A, CHR 0xC2, CHR 0xA0, CHR 0xE3, CHR 0x80, CHR 0x80] = []"
  by (simp add: trim_def strip.simps white_space_def)

lemma trim_example: "trim '' French '' = ''French''"
  by (simp add: trim_def strip.simps white_space_def)

lemma attempt_body_no_truthy:
  "ok r \<Longrightarrow> body_json r = Fulfilled result \<Longrightarrow> result \<noteq> JNull \<Longrightarrow>
   \<not> (\<exists>v. generatedText result = Inr (Some v) \<and> truthy (Some v)) \<Longrightarrow>
     attempt_body (Fulfilled r) = Inl MalformedResponse"
  by (auto simp: attempt_body_def generatedText_def split: option.splits)

lemma attempt_body_null:
  "ok r \<Longrightarrow> body_json r = Fulfilled JNull \<Longrightarrow>
     attempt_body (Fulfilled r) =
       Inl (Thrown ''Cannot read properties of null (reading 'candidates')'')"
  by (simp add: attempt_body_def generatedText_def)

section \<open>The claims\<close>

text \<open>
  C1, as the code has it: the check of the API key is in the context-menu click listener.
  With an empty key no click leads to a network call, and a click on any AI task item
  (Translate and Custom Prompt included) with selected text only shows the message
  \<^verbatim>\<open>Configuration Required\<close>. \<^verbatim>\<open>executeCloudAiTask\<close> has no such check: called
  with an empty key it starts with the call to the endpoint, and so do the message
  listener's two paths, which call it directly.
\<close>

theorem C1_key_guard_in_click_listener:
  "(key = [] \<longrightarrow> requests (onClicked key net info tabId) = [])
   \<and> (key = [] \<and> selectionText info = Some selectedText \<and> selectedText \<noteq> [] \<and> tabId \<noteq> 0 \<and>
        menuItemId info \<noteq> ACTION_SET_API_KEY \<and> menuItemId info \<noteq> ''AI_TASKS_GROUP'' \<longrightarrow>
        onClicked key net info tabId =
          [InjectResultModal tabId (Some ''Configuration Required'')
             (Some (JStr CONFIGURATION_REQUIRED))])
   \<and> (\<exists>evs. snd (executeCloudAiTask [] net selectedText systemPrompt) =
          Fetch (fetch_request [] selectedText systemPrompt) # evs)
   \<and> (tabId \<noteq> 0 \<longrightarrow>
        requests (onMessage [] net (RunCustomPrompt selectedText customPrompt) tabId) \<noteq> [] \<and>
        requests (onMessage [] net (RunTranslation selectedText targetLanguage) tabId) \<noteq> [])"
proof (intro conjI impI)
  assume "key = []"
  then show "requests (onClicked key net info tabId) = []"
    by (simp add: onClicked_def split: option.splits)
next
  assume "key = [] \<and> selectionText info = Some selectedText \<and> selectedText \<noteq> [] \<and> tabId \<noteq> 0 \<and>
        menuItemId info \<noteq> ACTION_SET_API_KEY \<and> menuItemId info \<noteq> ''AI_TASKS_GROUP''"
  then show "onClicked key net info tabId =
          [InjectResultModal tabId (Some ''Configuration Required'')
             (Some (JStr CONFIGURATION_REQUIRED))]"
    by (simp add: onClicked_def)
next
  show "\<exists>evs. snd (executeCloudAiTask [] net selectedText systemPrompt) =
          Fetch (fetch_request [] selectedText systemPrompt) # evs"
    by (simp add: executeCloudAiTask_unfold split: sum.splits)
next
  assume "tabId \<noteq> 0"
  then show "requests (onMessage [] net (RunCustomPrompt selectedText customPrompt) tabId) \<noteq> []"
    by (simp only: requests_onMessage_custom requests_executeCloudAiTask_nonempty
        not_False_eq_True)
next
  assume "tabId \<noteq> 0"
  then show "requests (onMessage [] net (RunTranslation selectedText targetLanguage) tabId) \<noteq> []"
    by (simp only: requests_onMessage_translation requests_executeCloudAiTask_nonempty
        not_False_eq_True)
qed

theorem C1_key_guard_in_click_listener_witness:
  "onClicked [] (\<lambda>k. Rejected ''Failed to fetch'')
      \<lparr> menuItemId = ''NANO_TRANSLATE'', selectionText = Some ''Good morning'' \<rparr> 7 =
     [InjectResultModal 7 (Some ''Configuration Required'') (Some (JStr CONFIGURATION_REQUIRED))]
   \<and> requests (onClicked [] (\<lambda>k. Rejected ''Failed to fetch'')
      \<lparr> menuItemId = ''NANO_TRANSLATE'', selectionText = Some ''Good morning'' \<rparr> 7) = []
   \<and> requests (onMessage [] (\<lambda>k. Rejected ''Failed to fetch'')
        (RunTranslation ''Good morning'' ''French'') 7) \<noteq> []"
  using C1_key_guard_in_click_listener [of "[]" "\<lambda>k. Rejected ''Failed to fetch''"
      "\<lparr> menuItemId = ''NANO_TRANSLATE'', selectionText = Some ''Good morning'' \<rparr>" 7
      "''Good morning''" _ _ "''French''"]
  by (simp add: ACTION_SET_API_KEY_def)

text \<open>
  The claim as stated fails on the message path: with an empty key a translation request
  leads to three calls to the endpoint, with the empty key in the address, and ends in the
  error of the last call.
\<close>

theorem C1_empty_key_counterexample:
  "onMessage [] (\<lambda>k. Rejected ''Failed to fetch'') (RunTranslation ''Good morning'' ''French'') 7 =
     [InjectProcessingModal 7 ''Translating to French...'',
      Fetch (fetch_request [] ''Good morning''
        ''You are an expert translator. Translate the following text strictly into French and provide only the translated text as the output.''),
      SetTimeout 1000,
      Fetch (fetch_request [] ''Good morning''
        ''You are an expert translator. Translate the following text strictly into French and provide only the translated text as the output.''),
      SetTimeout 2000,
      Fetch (fetch_request [] ''Good morning''
        ''You are an expert translator. Translate the following text strictly into French and provide only the translated text as the output.''),
      InjectResultModal 7 (Some ''Translation Error'') (Some (JStr ''Failed to fetch'')),
      SendResponse (ReplyError ''Failed to fetch''),
      HideProcessingModal 7]
   \<and> url (fetch_request [] ''Good morning''
        ''You are an expert translator. Translate the following text strictly into French and provide only the translated text as the output.'') =
     ''https://generativelanguage.googleapis.com/v1beta/models/gemini-2.5-flash-preview-05-20:generateContent?key=''"
  by (simp add: onMessage_def executeCloudAiTask_unfold attempt_body_def fetch_request_def
      apiUrl_def API_URL_BASE_def GEMINI_MODEL_def)

text \<open>
  C2: an invocation calls \<^verbatim>\<open>fetch\<close> at most three times. Its effects are one call, or
  two calls with a wait of 1000 ms between them, or three calls with waits of 1000 ms and
  2000 ms; nothing precedes the first call. When all three attempts fail, the invocation
  throws the error of the third attempt after exactly three calls; when the first two fail
  and the third succeeds, it returns the generated value after exactly three calls.
\<close>

theorem C2_retry_policy:
  "snd (executeCloudAiTask key net txt sp) \<in>
     {[Fetch (fetch_request key txt sp)],
      [Fetch (fetch_request key txt sp), SetTimeout 1000, Fetch (fetch_request key txt sp)],
      [Fetch (fetch_request key txt sp), SetTimeout 1000, Fetch (fetch_request key txt sp),
       SetTimeout 2000, Fetch (fetch_request key txt sp)]}
   \<and> length (requests (snd (executeCloudAiTask key net txt sp))) \<le> 3
   \<and> (attempt_body (net 0) = Inl e0 \<and> attempt_body (net 1) = Inl e1 \<and>
        attempt_body (net 2) = Inl e2 \<longrightarrow>
        executeCloudAiTask key net txt sp =
          (Inl e2,
           [Fetch (fetch_request key txt sp), SetTimeout 1000, Fetch (fetch_request key txt sp),
            SetTimeout 2000, Fetch (fetch_request key txt sp)]))
   \<and> (attempt_body (net 0) = Inl e0 \<and> attempt_body (net 1) = Inl e1 \<and>
        attempt_body (net 2) = Inr v \<longrightarrow>
        executeCloudAiTask key net txt sp =
          (Inr v,
           [Fetch (fetch_request key txt sp), SetTimeout 1000, Fetch (fetch_request key txt sp),
            SetTimeout 2000, Fetch (fetch_request key txt sp)]))"
proof (intro conjI impI)
  show "snd (executeCloudAiTask key net txt sp) \<in>
     {[Fetch (fetch_request key txt sp)],
      [Fetch (fetch_request key txt sp), SetTimeout 1000, Fetch (fetch_request key txt sp)],
      [Fetch (fetch_request key txt sp), SetTimeout 1000, Fetch (fetch_request key txt sp),
       SetTimeout 2000, Fetch (fetch_request key txt sp)]}"
    by (simp add: executeCloudAiTask_unfold split: sum.splits)
next
  show "length (requests (snd (executeCloudAiTask key net txt sp))) \<le> 3"
    by (simp add: executeCloudAiTask_unfold split: sum.splits)
next
  assume "attempt_body (net 0) = Inl e0 \<and> attempt_body (net 1) = Inl e1 \<and>
        attempt_body (net 2) = Inl e2"
  then show "executeCloudAiTask key net txt sp =
          (Inl e2,
           [Fetch (fetch_request key txt sp), SetTimeout 1000, Fetch (fetch_request key txt sp),
            SetTimeout 2000, Fetch (fetch_request key txt sp)])"
    by (simp add: executeCloudAiTask_unfold)
next
  assume "attempt_body (net 0) = Inl e0 \<and> attempt_body (net 1) = Inl e1 \<and>
        attempt_body (net 2) = Inr v"
  then show "executeCloudAiTask key net txt sp =
          (Inr v,
           [Fetch (fetch_request key txt sp), SetTimeout 1000, Fetch (fetch_request key txt sp),
            SetTimeout 2000, Fetch (fetch_request key txt sp)])"
    by (simp add: executeCloudAiTask_unfold)
qed

theorem C2_retry_policy_witness:
  "executeCloudAiTask ''K'' (\<lambda>k. Rejected ''Failed to fetch'') ''hi'' ''p'' =
     (Inl (Thrown ''Failed to fetch''),
      [Fetch (fetch_request ''K'' ''hi'' ''p''), SetTimeout 1000,
       Fetch (fetch_request ''K'' ''hi'' ''p''), SetTimeout 2000,
       Fetch (fetch_request ''K'' ''hi'' ''p'')])
   \<and> executeCloudAiTask ''K''
        (\<lambda>k. if k < 2 then Rejected ''Failed to fetch''
             else Fulfilled (generated_response (JStr ''ok''))) ''hi'' ''p'' =
     (Inr (JStr ''ok''),
      [Fetch (fetch_request ''K'' ''hi'' ''p''), SetTimeout 1000,
       Fetch (fetch_request ''K'' ''hi'' ''p''), SetTimeout 2000,
       Fetch (fetch_request ''K'' ''hi'' ''p'')])"
proof
  have "attempt_body (Rejected ''Failed to fetch'') = Inl (Thrown ''Failed to fetch'')"
    by (simp add: attempt_body_def)
  then show "executeCloudAiTask ''K'' (\<lambda>k. Rejected ''Failed to fetch'') ''hi'' ''p'' =
     (Inl (Thrown ''Failed to fetch''),
      [Fetch (fetch_request ''K'' ''hi'' ''p''), SetTimeout 1000,
       Fetch (fetch_request ''K'' ''hi'' ''p''), SetTimeout 2000,
       Fetch (fetch_request ''K'' ''hi'' ''p'')])"
    using C2_retry_policy [of "''K''" "\<lambda>k. Rejected ''Failed to fetch''" "''hi''" "''p''"
        "Thrown ''Failed to fetch''" "Thrown ''Failed to fetch''" "Thrown ''Failed to fetch''"]
    by simp
next
  let ?net = "\<lambda>k::nat. if k < 2 then Rejected ''Failed to fetch''
             else Fulfilled (generated_response (JStr ''ok''))"
  have "attempt_body (?net 0) = Inl (Thrown ''Failed to fetch'')"
    and "attempt_body (?net 1) = Inl (Thrown ''Failed to fetch'')"
    by (simp_all add: attempt_body_def)
  moreover have "attempt_body (?net 2) = Inr (JStr ''ok'')"
    by (simp add: attempt_body_generated_response)
  ultimately show "executeCloudAiTask ''K'' ?net ''hi'' ''p'' =
     (Inr (JStr ''ok''),
      [Fetch (fetch_request ''K'' ''hi'' ''p''), SetTimeout 1000,
       Fetch (fetch_request ''K'' ''hi'' ''p''), SetTimeout 2000,
       Fetch (fetch_request ''K'' ''hi'' ''p'')])"
    using C2_retry_policy [of "''K''" ?net "''hi''" "''p''"
        "Thrown ''Failed to fetch''" "Thrown ''Failed to fetch''" _ "JStr ''ok''"]
    by simp
qed

text \<open>
  C3, as the code has it: an empty parameter is rejected in the modal only. The submit
  handlers trim the input. When the trimmed input is empty (the empty input, an input of
  spaces only, any input of white space) they alert and send nothing; otherwise they send
  the trimmed input, so a message they send never carries an empty parameter. The message
  listener does not look at the parameter: a translation or custom-prompt request with an
  empty parameter goes on to the call to the endpoint.
\<close>

theorem C3_empty_parameter_rejected_by_modal_only:
  "translate_submit selectedText [] = [Alert ''Please enter a target language.'']
   \<and> prompt_submit selectedText [] = [Alert ''Please enter a custom instruction.'']
   \<and> translate_submit selectedText (replicate n (CHR '' '')) =
       [Alert ''Please enter a target language.'']
   \<and> prompt_submit selectedText (replicate n (CHR '' '')) =
       [Alert ''Please enter a custom instruction.'']
   \<and> (trim input = [] \<longrightarrow>
        translate_submit selectedText input = [Alert ''Please enter a target language.''] \<and>
        prompt_submit selectedText input = [Alert ''Please enter a custom instruction.''])
   \<and> (trim input \<noteq> [] \<longrightarrow>
        translate_submit selectedText input =
          [SendMessage (RunTranslation selectedText (trim input)),
           RemoveModal ''translation-input-modal''] \<and>
        prompt_submit selectedText input =
          [SendMessage (RunCustomPrompt selectedText (trim input)),
           RemoveModal ''nano-prompt-input-modal''])
   \<and> (SendMessage (RunTranslation sent targetLanguage) \<in> set (translate_submit selectedText input)
        \<longrightarrow> targetLanguage \<noteq> [])
   \<and> (SendMessage (RunCustomPrompt sent customPrompt) \<in> set (prompt_submit selectedText input)
        \<longrightarrow> customPrompt \<noteq> [])
   \<and> (tabId \<noteq> 0 \<longrightarrow>
        (\<exists>evs. onMessage key net (RunTranslation selectedText []) tabId =
           InjectProcessingModal tabId ''Translating to ...'' #
           Fetch (fetch_request key selectedText
             ''You are an expert translator. Translate the following text strictly into  and provide only the translated text as the output.'') #
           evs)
        \<and> (\<exists>evs. onMessage key net (RunCustomPrompt selectedText []) tabId =
           InjectProcessingModal tabId ''Running Custom Prompt...'' #
           Fetch (fetch_request key selectedText []) # evs))
   \<and> translate_submit selectedText
        [CHR 0x20, CHR 0x09, CHR 0x0A, CHR 0xC2, CHR 0xA0, CHR 0xE3, CHR 0x80, CHR 0x80] =
       [Alert ''Please enter a target language.'']
   \<and> translate_submit selectedText '' French '' =
       [SendMessage (RunTranslation selectedText ''French''),
        RemoveModal ''translation-input-modal'']"
proof (intro conjI impI)
  show "translate_submit selectedText [] = [Alert ''Please enter a target language.'']"
    by (simp add: translate_submit_def trim_Nil)
next
  show "prompt_submit selectedText [] = [Alert ''Please enter a custom instruction.'']"
    by (simp add: prompt_submit_def trim_Nil)
next
  show "translate_submit selectedText (replicate n (CHR '' '')) =
       [Alert ''Please enter a target language.'']"
    by (simp add: translate_submit_def trim_spaces)
next
  show "prompt_submit selectedText (replicate n (CHR '' '')) =
       [Alert ''Please enter a custom instruction.'']"
    by (simp add: prompt_submit_def trim_spaces)
next
  assume "trim input = []"
  then show "translate_submit selectedText input = [Alert ''Please enter a target language.'']"
    by (simp add: translate_submit_def)
next
  assume "trim input = []"
  then show "prompt_submit selectedText input = [Alert ''Please enter a custom instruction.'']"
    by (simp add: prompt_submit_def)
next
  assume "trim input \<noteq> []"
  then show "translate_submit selectedText input =
          [SendMessage (RunTranslation selectedText (trim input)),
           RemoveModal ''translation-input-modal'']"
    by (simp add: translate_submit_def)
next
  assume "trim input \<noteq> []"
  then show "prompt_submit selectedText input =
          [SendMessage (RunCustomPrompt selectedText (trim input)),
           RemoveModal ''nano-prompt-input-modal'']"
    by (simp add: prompt_submit_def)
next
  assume "SendMessage (RunTranslation sent targetLanguage) \<in> set (translate_submit selectedText input)"
  then show "targetLanguage \<noteq> []"
    by (rule translate_submit_sends_nonempty)
next
  assume "SendMessage (RunCustomPrompt sent customPrompt) \<in> set (prompt_submit selectedText input)"
  then show "customPrompt \<noteq> []"
    by (rule prompt_submit_sends_nonempty)
next
  assume "tabId \<noteq> 0"
  then show "\<exists>evs. onMessage key net (RunTranslation selectedText []) tabId =
           InjectProcessingModal tabId ''Translating to ...'' #
           Fetch (fetch_request key selectedText
             ''You are an expert translator. Translate the following text strictly into  and provide only the translated text as the output.'') #
           evs"
    by (simp add: onMessage_def executeCloudAiTask_unfold split: sum.splits)
next
  assume "tabId \<noteq> 0"
  then show "\<exists>evs. onMessage key net (RunCustomPrompt selectedText []) tabId =
           InjectProcessingModal tabId ''Running Custom Prompt...'' #
           Fetch (fetch_request key selectedText []) # evs"
    by (simp add: onMessage_def executeCloudAiTask_unfold split: sum.splits)
next
  show "translate_submit selectedText
        [CHR 0x20, CHR 0x09, CHR 0x0A, CHR 0xC2, CHR 0xA0, CHR 0xE3, CHR 0x80, CHR 0x80] =
       [Alert ''Please enter a target language.'']"
    by (simp add: translate_submit_def trim_white_space_example)
next
  show "translate_submit selectedText '' French '' =
       [SendMessage (RunTranslation selectedText ''French''),
        RemoveModal ''translation-input-modal'']"
    by (simp add: translate_submit_def trim_example)
qed

theorem C3_empty_parameter_rejected_by_modal_only_witness:
  "translate_submit ''Good morning''
      [CHR 0x20, CHR 0x09, CHR 0x0A, CHR 0xC2, CHR 0xA0, CHR 0xE3, CHR 0x80, CHR 0x80] =
     [Alert ''Please enter a target language.'']
   \<and> prompt_submit ''Good morning''
      [CHR 0x20, CHR 0x09, CHR 0x0A, CHR 0xC2, CHR 0xA0, CHR 0xE3, CHR 0x80, CHR 0x80] =
     [Alert ''Please enter a custom instruction.'']
   \<and> translate_submit ''Good morning'' '' French '' =
     [SendMessage (RunTranslation ''Good morning'' ''French''),
      RemoveModal ''translation-input-modal'']
   \<and> prompt_submit ''Good morning'' '' French '' =
     [SendMessage (RunCustomPrompt ''Good morning'' ''French''),
      RemoveModal ''nano-prompt-input-modal'']
   \<and> ''French'' \<noteq> []
   \<and> (\<exists>evs. onMessage ''K'' (\<lambda>k. Rejected ''Failed to fetch'')
          (RunTranslation ''Good morning'' []) 7 =
        InjectProcessingModal 7 ''Translating to ...'' #
        Fetch (fetch_request ''K'' ''Good morning''
          ''You are an expert translator. Translate the following text strictly into  and provide only the translated text as the output.'') #
        evs)"
proof -
  note blank = C3_empty_parameter_rejected_by_modal_only [of "''Good morning''" _
      "[CHR 0x20, CHR 0x09, CHR 0x0A, CHR 0xC2, CHR 0xA0, CHR 0xE3, CHR 0x80, CHR 0x80]"]
  note french = C3_empty_parameter_rejected_by_modal_only [of "''Good morning''" _ "'' French ''" "''Good morning''" "''French''"
      "''French''" 7 "''K''" "\<lambda>k. Rejected ''Failed to fetch''"]
  have sends: "translate_submit ''Good morning'' '' French '' =
     [SendMessage (RunTranslation ''Good morning'' ''French''),
      RemoveModal ''translation-input-modal'']"
    "prompt_submit ''Good morning'' '' French '' =
     [SendMessage (RunCustomPrompt ''Good morning'' ''French''),
      RemoveModal ''nano-prompt-input-modal'']"
    using french by (simp_all add: trim_example)
  have "''French'' \<noteq> []"
    using french sends by simp
  moreover have "\<exists>evs. onMessage ''K'' (\<lambda>k. Rejected ''Failed to fetch'')
          (RunTranslation ''Good morning'' []) 7 =
        InjectProcessingModal 7 ''Translating to ...'' #
        Fetch (fetch_request ''K'' ''Good morning''
          ''You are an expert translator. Translate the following text strictly into  and provide only the translated text as the output.'') #
        evs"
    using french by simp
  ultimately show ?thesis
    using blank sends by (simp add: trim_white_space_example)
qed

text \<open>
  The claim as stated fails for a translation request with the empty target language: the
  endpoint is called, and its answer is shown as the translation.
\<close>

theorem C3_empty_parameter_counterexample:
  "onMessage ''K'' (\<lambda>k. Fulfilled (generated_response (JStr ''Bonjour'')))
      (RunTranslation ''Good morning'' []) 7 =
     [InjectProcessingModal 7 ''Translating to ...'',
      Fetch (fetch_request ''K'' ''Good morning''
        ''You are an expert translator. Translate the following text strictly into  and provide only the translated text as the output.''),
      InjectResultModal 7 (Some ''Translation: '') (Some (JStr ''Bonjour'')),
      SendResponse ReplySuccess,
      HideProcessingModal 7]"
  by (simp add: onMessage_def executeCloudAiTask_unfold attempt_body_generated_response)

text \<open>
  C4, as the code has it: an attempt returns a value \<open>v\<close> exactly when the response status
  is in 200 to 299, the body parses as JSON, and the value at
  \<^verbatim>\<open>candidates[0].content.parts[0].text\<close> is \<open>v\<close> and is truthy; for a string this means
  that it is not empty. Every other response with such a status fails the attempt: with
  the error \<^verbatim>\<open>Received an empty or malformed response from the API.\<close> when the body
  parses to a value other than \<^verbatim>\<open>null\<close> that holds no truthy value at the path, with
  a TypeError when the body parses to \<^verbatim>\<open>null\<close>, and with the parser's error when the
  body cannot be parsed. A response with another status fails with the HTTP error (or the
  error of reading its text), a rejected \<^verbatim>\<open>fetch\<close> with its own error. The loop treats
  every failed attempt alike, whatever its error: before the third attempt it waits and
  tries again, at the third it rethrows. The first successful attempt ends the loop: no
  further call follows it.
\<close>

theorem C4_attempt_result:
  "(attempt_body outcome = Inr v \<longleftrightarrow>
      (\<exists>r result. outcome = Fulfilled r \<and> ok r \<and> body_json r = Fulfilled result \<and>
         generatedText result = Inr (Some v) \<and> truthy (Some v)))
   \<and> (attempt_body outcome = Inr (JStr s) \<longleftrightarrow>
      (\<exists>r result. outcome = Fulfilled r \<and> ok r \<and> body_json r = Fulfilled result \<and>
         generatedText result = Inr (Some (JStr s)) \<and> s \<noteq> []))
   \<and> (ok r \<and> body_json r = Fulfilled result \<and> result \<noteq> JNull \<and>
        \<not> (\<exists>g. generatedText result = Inr (Some g) \<and> truthy (Some g)) \<longrightarrow>
      attempt_body (Fulfilled r) = Inl MalformedResponse)
   \<and> (ok r \<and> body_json r = Fulfilled JNull \<longrightarrow>
      attempt_body (Fulfilled r) =
        Inl (Thrown ''Cannot read properties of null (reading 'candidates')''))
   \<and> (ok r \<and> body_json r = Rejected m \<longrightarrow> attempt_body (Fulfilled r) = Inl (Thrown m))
   \<and> (\<not> ok r \<and> body_text r = Fulfilled errorText \<longrightarrow>
      attempt_body (Fulfilled r) = Inl (HttpError (status r) errorText))
   \<and> (\<not> ok r \<and> body_text r = Rejected m \<longrightarrow> attempt_body (Fulfilled r) = Inl (Thrown m))
   \<and> attempt_body (Rejected m) = Inl (Thrown m)
   \<and> (attempt < 2 \<and> attempt_body (net attempt) = Inl e \<longrightarrow>
      retry_loop net rq attempt =
        (fst (retry_loop net rq (attempt + 1)),
         Fetch rq # SetTimeout (1000 * 2 ^ attempt) # snd (retry_loop net rq (attempt + 1))))
   \<and> (attempt_body (net 2) = Inl e \<longrightarrow> retry_loop net rq 2 = (Inl e, [Fetch rq]))
   \<and> (attempt < 3 \<and> attempt_body (net attempt) = Inr v \<longrightarrow>
      retry_loop net rq attempt = (Inr v, [Fetch rq]))"
proof (intro conjI impI)
  show "attempt_body outcome = Inr v \<longleftrightarrow>
      (\<exists>r result. outcome = Fulfilled r \<and> ok r \<and> body_json r = Fulfilled result \<and>
         generatedText result = Inr (Some v) \<and> truthy (Some v))"
    by (rule attempt_body_Inr_iff)
next
  show "attempt_body outcome = Inr (JStr s) \<longleftrightarrow>
      (\<exists>r result. outcome = Fulfilled r \<and> ok r \<and> body_json r = Fulfilled result \<and>
         generatedText result = Inr (Some (JStr s)) \<and> s \<noteq> [])"
    by (simp add: attempt_body_Inr_iff)
next
  assume "ok r \<and> body_json r = Fulfilled result \<and> result \<noteq> JNull \<and>
        \<not> (\<exists>g. generatedText result = Inr (Some g) \<and> truthy (Some g))"
  then show "attempt_body (Fulfilled r) = Inl MalformedResponse"
    using attempt_body_no_truthy [of r result] by blast
next
  assume "ok r \<and> body_json r = Fulfilled JNull"
  then show "attempt_body (Fulfilled r) =
        Inl (Thrown ''Cannot read properties of null (reading 'candidates')'')"
    using attempt_body_null [of r] by blast
next
  assume "ok r \<and> body_json r = Rejected m"
  then show "attempt_body (Fulfilled r) = Inl (Thrown m)"
    by (simp add: attempt_body_def)
next
  assume "\<not> ok r \<and> body_text r = Fulfilled errorText"
  then show "attempt_body (Fulfilled r) = Inl (HttpError (status r) errorText)"
    by (simp add: attempt_body_def)
next
  assume "\<not> ok r \<and> body_text r = Rejected m"
  then show "attempt_body (Fulfilled r) = Inl (Thrown m)"
    by (simp add: attempt_body_def)
next
  show "attempt_body (Rejected m) = Inl (Thrown m)"
    by (simp add: attempt_body_def)
next
  assume "attempt < 2 \<and> attempt_body (net attempt) = Inl e"
  then show "retry_loop net rq attempt =
        (fst (retry_loop net rq (attempt + 1)),
         Fetch rq # SetTimeout (1000 * 2 ^ attempt) # snd (retry_loop net rq (attempt + 1)))"
    by (simp add: retry_loop_retry)
next
  assume "attempt_body (net 2) = Inl e"
  then show "retry_loop net rq 2 = (Inl e, [Fetch rq])"
    by (rule retry_loop_rethrow)
next
  assume "attempt < 3 \<and> attempt_body (net attempt) = Inr v"
  then show "retry_loop net rq attempt = (Inr v, [Fetch rq])"
    by (simp add: retry_loop_success)
qed

theorem C4_attempt_result_witness:
  "attempt_body (Fulfilled (generated_response (JStr ''Bonjour''))) = Inr (JStr ''Bonjour'')
   \<and> attempt_body (Fulfilled (generated_response (JStr []))) = Inl MalformedResponse
   \<and> attempt_body
        (Fulfilled \<lparr> status = 200, body_text = Fulfilled ''null'', body_json = Fulfilled JNull \<rparr>) =
       Inl (Thrown ''Cannot read properties of null (reading 'candidates')'')
   \<and> attempt_body
        (Fulfilled \<lparr> status = 200, body_text = Fulfilled ''<html>'',
           body_json = Rejected ''Unexpected token'' \<rparr>) =
       Inl (Thrown ''Unexpected token'')
   \<and> attempt_body
        (Fulfilled \<lparr> status = 429, body_text = Fulfilled ''quota'',
           body_json = Rejected ''Unexpected token'' \<rparr>) =
       Inl (HttpError 429 ''quota'')
   \<and> attempt_body
        (Fulfilled \<lparr> status = 500, body_text = Rejected ''network error'',
           body_json = Rejected ''network error'' \<rparr>) =
       Inl (Thrown ''network error'')
   \<and> retry_loop (\<lambda>k. Fulfilled (generated_response (JStr []))) (fetch_request ''K'' ''hi'' ''p'') 2 =
       (Inl MalformedResponse, [Fetch (fetch_request ''K'' ''hi'' ''p'')])
   \<and> retry_loop (\<lambda>k. Fulfilled (generated_response (JStr []))) (fetch_request ''K'' ''hi'' ''p'') 1 =
       (Inl MalformedResponse,
        [Fetch (fetch_request ''K'' ''hi'' ''p''), SetTimeout 2000,
         Fetch (fetch_request ''K'' ''hi'' ''p'')])
   \<and> retry_loop (\<lambda>k. Fulfilled (generated_response (JStr ''Bonjour'')))
         (fetch_request ''K'' ''hi'' ''p'') 0 =
       (Inr (JStr ''Bonjour''), [Fetch (fetch_request ''K'' ''hi'' ''p'')])"
proof -
  let ?good = "generated_response (JStr ''Bonjour'')"
  let ?bad = "generated_response (JStr [])"
  let ?rq = "fetch_request ''K'' ''hi'' ''p''"
  have ok: "ok ?good" "ok ?bad"
    by (simp_all add: ok_def generated_response_def)
  have good: "attempt_body (Fulfilled ?good) = Inr (JStr ''Bonjour'')"
    using C4_attempt_result [of "Fulfilled ?good" _ "''Bonjour''"] ok
    by (simp add: generated_response_def generatedText_generated_response)
  have bad: "attempt_body (Fulfilled ?bad) = Inl MalformedResponse"
    using C4_attempt_result [of _ _ _ ?bad
        "JObj [(''candidates'',
           JArr [JObj [(''content'', JObj [(''parts'', JArr [JObj [(''text'', JStr [])]])])]])]"] ok
    by (simp add: generated_response_def generatedText_generated_response)
  have null: "attempt_body
        (Fulfilled \<lparr> status = 200, body_text = Fulfilled ''null'', body_json = Fulfilled JNull \<rparr>) =
       Inl (Thrown ''Cannot read properties of null (reading 'candidates')'')"
    using C4_attempt_result [of _ _ _
        "\<lparr> status = 200, body_text = Fulfilled ''null'', body_json = Fulfilled JNull \<rparr>"]
    by (simp add: ok_def)
  have unparsed: "attempt_body
        (Fulfilled \<lparr> status = 200, body_text = Fulfilled ''<html>'',
           body_json = Rejected ''Unexpected token'' \<rparr>) =
       Inl (Thrown ''Unexpected token'')"
    using C4_attempt_result [of _ _ _
        "\<lparr> status = 200, body_text = Fulfilled ''<html>'',
           body_json = Rejected ''Unexpected token'' \<rparr>" _ "''Unexpected token''"]
    by (simp add: ok_def)
  have http: "attempt_body
        (Fulfilled \<lparr> status = 429, body_text = Fulfilled ''quota'',
           body_json = Rejected ''Unexpected token'' \<rparr>) =
       Inl (HttpError 429 ''quota'')"
    using C4_attempt_result [of _ _ _
        "\<lparr> status = 429, body_text = Fulfilled ''quota'',
           body_json = Rejected ''Unexpected token'' \<rparr>" _ _ "''quota''"]
    by (simp add: ok_def)
  have unread: "attempt_body
        (Fulfilled \<lparr> status = 500, body_text = Rejected ''network error'',
           body_json = Rejected ''network error'' \<rparr>) =
       Inl (Thrown ''network error'')"
    using C4_attempt_result [of _ _ _
        "\<lparr> status = 500, body_text = Rejected ''network error'',
           body_json = Rejected ''network error'' \<rparr>" _ "''network error''"]
    by (simp add: ok_def)
  have last: "retry_loop (\<lambda>k. Fulfilled ?bad) ?rq 2 = (Inl MalformedResponse, [Fetch ?rq])"
    using C4_attempt_result [of _ _ _ _ _ _ _ _ "\<lambda>k. Fulfilled ?bad" MalformedResponse ?rq] bad
    by simp
  have second: "retry_loop (\<lambda>k. Fulfilled ?bad) ?rq 1 =
      (Inl MalformedResponse, [Fetch ?rq, SetTimeout 2000, Fetch ?rq])"
    using C4_attempt_result [of _ _ _ _ _ _ _ 1 "\<lambda>k. Fulfilled ?bad" MalformedResponse ?rq] bad last
    by (simp add: numeral_2_eq_2)
  have first: "retry_loop (\<lambda>k. Fulfilled ?good) ?rq 0 = (Inr (JStr ''Bonjour''), [Fetch ?rq])"
    using C4_attempt_result [of _ "JStr ''Bonjour''" _ _ _ _ _ 0 "\<lambda>k. Fulfilled ?good" _ ?rq] good
    by simp
  from good bad null unparsed http unread last second first show ?thesis
    by simp
qed

text \<open>
  The claim as stated fails where the value at the path is truthy and not a string: the
  attempt returns it, although the body holds no generated text.
\<close>

theorem C4_non_text_counterexample:
  "attempt_body (Fulfilled (generated_response (JBool True))) = Inr (JBool True)
   \<and> ok (generated_response (JBool True))
   \<and> body_json (generated_response (JBool True)) =
       Fulfilled (JObj [(''candidates'',
         JArr [JObj [(''content'', JObj [(''parts'', JArr [JObj [(''text'', JBool True)]])])]])])
   \<and> generatedText (JObj [(''candidates'',
         JArr [JObj [(''content'', JObj [(''parts'', JArr [JObj [(''text'', JBool True)]])])]])]) =
       Inr (Some (JBool True))"
proof (intro conjI)
  show "attempt_body (Fulfilled (generated_response (JBool True))) = Inr (JBool True)"
    by (simp add: attempt_body_generated_response)
next
  show "ok (generated_response (JBool True))"
    by (simp add: generated_response_def ok_def)
next
  show "body_json (generated_response (JBool True)) =
       Fulfilled (JObj [(''candidates'',
         JArr [JObj [(''content'', JObj [(''parts'', JArr [JObj [(''text'', JBool True)]])])]])])"
    by (simp add: generated_response_def)
next
  show "generatedText (JObj [(''candidates'',
         JArr [JObj [(''content'', JObj [(''parts'', JArr [JObj [(''text'', JBool True)]])])]])]) =
       Inr (Some (JBool True))"
    by (rule generatedText_generated_response)
qed

text \<open>
  C5: for Summarize, Rewrite and Proofread every request that \<^verbatim>\<open>runAiTask\<close> sends (at
  least one, at most three) carries the action's fixed instruction, the same string for
  every selected text, key, tab and behaviour of the network. The Proofread instruction
  asks for the corrected text first and for the list of changes second. A click on one of
  the three items with a key set and a non-empty selection runs \<^verbatim>\<open>runAiTask\<close> on the
  selected text.
\<close>

theorem C5_fixed_templates:
  "(\<exists>n. 1 \<le> n \<and> n \<le> 3 \<and>
      map instruction (requests (runAiTask key net SUBMENU_SUMMARIZE_ID sourceText tabId)) =
        replicate n [''You are an expert summarizer. Provide the key points from the context as a short, concise, bulleted list using markdown format.''])
   \<and> (\<exists>n. 1 \<le> n \<and> n \<le> 3 \<and>
      map instruction (requests (runAiTask key net SUBMENU_REWRITE_ID sourceText tabId)) =
        replicate n [''Rewrite the following text to simplify it for a 5th-grade reading level. Keep the length similar.''])
   \<and> (\<exists>n. 1 \<le> n \<and> n \<le> 3 \<and>
      map instruction (requests (runAiTask key net SUBMENU_PROOFREAD_ID sourceText tabId)) =
        replicate n [''Proofread the text provided. First, output the fully corrected text. Second, list all significant changes made (grammar, spelling, syntax) in a bulleted list format.''])
   \<and> (key \<noteq> [] \<and> sourceText \<noteq> [] \<and> tabId \<noteq> 0 \<and>
        action \<in> {SUBMENU_SUMMARIZE_ID, SUBMENU_REWRITE_ID, SUBMENU_PROOFREAD_ID} \<longrightarrow>
        onClicked key net \<lparr> menuItemId = action, selectionText = Some sourceText \<rparr> tabId =
          runAiTask key net action sourceText tabId)"
proof (intro conjI impI)
  show "\<exists>n. 1 \<le> n \<and> n \<le> 3 \<and>
      map instruction (requests (runAiTask key net SUBMENU_SUMMARIZE_ID sourceText tabId)) =
        replicate n [''You are an expert summarizer. Provide the key points from the context as a short, concise, bulleted list using markdown format.'']"
    unfolding requests_runAiTask_summarize by (rule instructions_executeCloudAiTask)
next
  show "\<exists>n. 1 \<le> n \<and> n \<le> 3 \<and>
      map instruction (requests (runAiTask key net SUBMENU_REWRITE_ID sourceText tabId)) =
        replicate n [''Rewrite the following text to simplify it for a 5th-grade reading level. Keep the length similar.'']"
    unfolding requests_runAiTask_rewrite by (rule instructions_executeCloudAiTask)
next
  show "\<exists>n. 1 \<le> n \<and> n \<le> 3 \<and>
      map instruction (requests (runAiTask key net SUBMENU_PROOFREAD_ID sourceText tabId)) =
        replicate n [''Proofread the text provided. First, output the fully corrected text. Second, list all significant changes made (grammar, spelling, syntax) in a bulleted list format.'']"
    unfolding requests_runAiTask_proofread by (rule instructions_executeCloudAiTask)
next
  assume "key \<noteq> [] \<and> sourceText \<noteq> [] \<and> tabId \<noteq> 0 \<and>
        action \<in> {SUBMENU_SUMMARIZE_ID, SUBMENU_REWRITE_ID, SUBMENU_PROOFREAD_ID}"
  then show "onClicked key net \<lparr> menuItemId = action, selectionText = Some sourceText \<rparr> tabId =
          runAiTask key net action sourceText tabId"
    by (auto simp: onClicked_def SUBMENU_SUMMARIZE_ID_def SUBMENU_REWRITE_ID_def
        SUBMENU_PROOFREAD_ID_def SUBMENU_CUSTOM_PROMPT_ID_def SUBMENU_TRANSLATE_ID_def
        ACTION_SET_API_KEY_def)
qed

theorem C5_fixed_templates_witness:
  "map instruction
     (requests
       (onClicked ''K'' (\<lambda>k. Fulfilled (generated_response (JStr ''Fixed text.'')))
          \<lparr> menuItemId = ''NANO_PROOFREAD'', selectionText = Some ''Teh text.'' \<rparr> 7)) =
     [[''Proofread the text provided. First, output the fully corrected text. Second, list all significant changes made (grammar, spelling, syntax) in a bulleted list format.'']]"
proof -
  let ?net = "\<lambda>k::nat. Fulfilled (generated_response (JStr ''Fixed text.''))"
  have "onClicked ''K'' ?net
      \<lparr> menuItemId = ''NANO_PROOFREAD'', selectionText = Some ''Teh text.'' \<rparr> 7 =
     runAiTask ''K'' ?net ''NANO_PROOFREAD'' ''Teh text.'' 7"
    using C5_fixed_templates [of "''K''" ?net "''Teh text.''" 7 "''NANO_PROOFREAD''"]
    by (simp add: SUBMENU_PROOFREAD_ID_def)
  moreover have "requests (runAiTask ''K'' ?net ''NANO_PROOFREAD'' ''Teh text.'' 7) =
      [fetch_request ''K'' ''Teh text.''
        ''Proofread the text provided. First, output the fully corrected text. Second, list all significant changes made (grammar, spelling, syntax) in a bulleted list format.'']"
    using requests_runAiTask_proofread [of "''K''" ?net "''Teh text.''" 7]
    by (simp add: SUBMENU_PROOFREAD_ID_def executeCloudAiTask_unfold
        attempt_body_generated_response)
  ultimately show ?thesis
    by (simp add: instruction_fetch_request del: instruction.simps)
qed



text \<open>
  C7, as the code has it: every request of an invocation has the instruction as the single
  part of \<^verbatim>\<open>systemInstruction\<close>, the text \<^verbatim>\<open>Original Text: \<close> followed by the
  sanitised source text as the single part of the single entry of \<^verbatim>\<open>contents\<close>, and
  the temperature 0.2. Every request sent by the click listener or by the message listener,
  whatever the action, has the temperature 0.2.
\<close>

theorem C7_request_body:
  "(\<exists>n. 1 \<le> n \<and> n \<le> 3 \<and>
      map body (requests (snd (executeCloudAiTask key net sourceText systemPrompt))) =
        replicate n
          \<lparr> contents =
              [\<lparr> parts = [\<lparr> part_text = ''Original Text: '' @ plainText sourceText \<rparr>] \<rparr>],
            systemInstruction = \<lparr> parts = [\<lparr> part_text = systemPrompt \<rparr>] \<rparr>,
            generationConfig = \<lparr> temperature = 2 / 10 \<rparr> \<rparr>)
   \<and> (\<exists>n. n \<le> 3 \<and>
      map (\<lambda>rq. temperature (generationConfig (body rq)))
        (requests (onClicked key net info tabId)) = replicate n (2 / 10))
   \<and> (\<exists>n. n \<le> 3 \<and>
      map (\<lambda>rq. temperature (generationConfig (body rq)))
        (requests (onMessage key net request tabId)) = replicate n (2 / 10))"
proof (intro conjI)
  show "\<exists>n. 1 \<le> n \<and> n \<le> 3 \<and>
      map body (requests (snd (executeCloudAiTask key net sourceText systemPrompt))) =
        replicate n
          \<lparr> contents =
              [\<lparr> parts = [\<lparr> part_text = ''Original Text: '' @ plainText sourceText \<rparr>] \<rparr>],
            systemInstruction = \<lparr> parts = [\<lparr> part_text = systemPrompt \<rparr>] \<rparr>,
            generationConfig = \<lparr> temperature = 2 / 10 \<rparr> \<rparr>"
    using bodies_executeCloudAiTask [of key net sourceText systemPrompt]
    by (simp add: build_payload_def)
next
  obtain t sp n where "n \<le> 3"
    and "requests (onClicked key net info tabId) = replicate n (fetch_request key t sp)"
    using requests_onClicked_shape by blast
  then show "\<exists>n. n \<le> 3 \<and>
      map (\<lambda>rq. temperature (generationConfig (body rq)))
        (requests (onClicked key net info tabId)) = replicate n (2 / 10)"
    by (intro exI [of _ n]) (simp add: temperature_fetch_request)
next
  obtain t sp n where "n \<le> 3"
    and "requests (onMessage key net request tabId) = replicate n (fetch_request key t sp)"
    using requests_onMessage_shape by blast
  then show "\<exists>n. n \<le> 3 \<and>
      map (\<lambda>rq. temperature (generationConfig (body rq)))
        (requests (onMessage key net request tabId)) = replicate n (2 / 10)"
    by (intro exI [of _ n]) (simp add: temperature_fetch_request)
qed

text \<open>
  The claim as stated fails because of the prefix: the user content of the request is not
  the sanitised text itself.
\<close>

theorem C7_prefix_counterexample:
  "map user_content
     (requests (snd (executeCloudAiTask ''K''
        (\<lambda>k. Fulfilled (generated_response (JStr ''Salut''))) ''<b>hi</b>'' ''Translate''))) =
     [[''Original Text: hi'']]
   \<and> plainText ''<b>hi</b>'' = ''hi''"
  by (simp add: executeCloudAiTask_unfold attempt_body_generated_response fetch_request_def
      build_payload_def after_match_def)

text \<open>
  C8: every request sent for a translation carries the instruction that names the target
  language verbatim, between the fixed opening and the fixed ending
  \<^verbatim>\<open> and provide only the translated text as the output.\<close>; every request sent for a
  custom prompt carries the caller's prompt itself as the instruction.
\<close>

theorem C8_parametric_instructions:
  "tabId \<noteq> 0 \<longrightarrow>
     (\<exists>n. 1 \<le> n \<and> n \<le> 3 \<and>
        map instruction
          (requests (onMessage key net (RunTranslation selectedText targetLanguage) tabId)) =
          replicate n
            [''You are an expert translator. Translate the following text strictly into ''
             @ targetLanguage @ '' and provide only the translated text as the output.''])
     \<and> (\<exists>n. 1 \<le> n \<and> n \<le> 3 \<and>
        map instruction
          (requests (onMessage key net (RunCustomPrompt selectedText customPrompt) tabId)) =
          replicate n [customPrompt])"
  using instructions_onMessage_translation instructions_onMessage_custom by blast

theorem C8_parametric_instructions_witness:
  "(\<exists>n. 1 \<le> n \<and> n \<le> 3 \<and>
      map instruction
        (requests (onMessage ''K'' (\<lambda>k. Rejected ''Failed to fetch'')
           (RunTranslation ''Good morning'' ''French'') 7)) =
        replicate n
          [''You are an expert translator. Translate the following text strictly into French and provide only the translated text as the output.''])
   \<and> (\<exists>n. 1 \<le> n \<and> n \<le> 3 \<and>
      map instruction
        (requests (onMessage ''K'' (\<lambda>k. Rejected ''Failed to fetch'')
           (RunCustomPrompt ''Good morning'' ''Write a headline.'') 7)) =
        replicate n [''Write a headline.''])"
  using C8_parametric_instructions [of 7 "''K''" "\<lambda>k. Rejected ''Failed to fetch''"
      "''Good morning''" "''French''" "''Write a headline.''"]
  by simp

text \<open>
  C9, as the code has it: sanitisation removes every match of a \<^verbatim>\<open><\<close>, the run of
  characters other than \<^verbatim>\<open>>\<close> after it, and one \<^verbatim>\<open>>\<close> if there is one. Text
  before the first \<^verbatim>\<open><\<close> is kept; from a \<^verbatim>\<open><\<close> everything is deleted up to and
  including the next \<^verbatim>\<open>>\<close>, or up to the end of the whole text when no
  \<^verbatim>\<open>>\<close> follows. The deleted run may contain line breaks. So a \<^verbatim>\<open><\<close> that is
  not part of a tag loses the text after it: \<^verbatim>\<open>1 < 2\<close> becomes \<^verbatim>\<open>1 \<close>.
\<close>

theorem C9_removal_to_next_gt_or_end:
  "(CHR ''<'' \<notin> set pre \<and> CHR ''>'' \<notin> set mid \<longrightarrow>
      plainText (pre @ CHR ''<'' # mid @ CHR ''>'' # post) = pre @ plainText post)
   \<and> (CHR ''<'' \<notin> set pre \<and> CHR ''>'' \<notin> set mid \<longrightarrow>
      plainText (pre @ CHR ''<'' # mid) = pre)
   \<and> plainText ''1 < 2'' = ''1 ''"
  by (simp add: plainText_keeps after_match_closed after_match_open)

theorem C9_removal_to_next_gt_or_end_witness:
  "plainText ''a<b\<newline>c>d'' = ''ad'' \<and> plainText ''a<b\<newline>c'' = ''a''"
  using C9_removal_to_next_gt_or_end [of "''a''" "''b\<newline>c''" "''d''"]
  by simp

text \<open>
  The claim as stated fails on a text of two lines: the deletion that starts at the
  \<^verbatim>\<open><\<close> of the first line does not stop at the end of that line, it also removes the
  second line, which the per-line reading keeps.
\<close>

theorem C9_per_line_counterexample:
  "plainText ''a<b\<newline>c'' = ''a'' \<and> plainText_per_line ''a<b\<newline>c'' = ''a\<newline>c''"
  by (simp add: plainText_per_line_def after_match_def)

text \<open>
  C10: every invocation ends (all awaited promises settling) in one of four ways: the first
  attempt succeeds, or the second after one failure, or the third after two failures, and
  the invocation returns the value generated by that attempt, the truthy value at
  \<^verbatim>\<open>candidates[0].content.parts[0].text\<close> of its response; or all three attempts fail
  and it throws the error of the third. It never throws the error
  \<^verbatim>\<open>Maximum retry attempts reached.\<close> of the statement after the loop: entered at
  any attempt below three, the loop returns or rethrows before that statement is reached.
\<close>

theorem C10_terminates_without_fallback:
  "((\<exists>v. attempt_body (net 0) = Inr v \<and>
        executeCloudAiTask key net sourceText sp =
          (Inr v, [Fetch (fetch_request key sourceText sp)]))
    \<or> (\<exists>e0 v. attempt_body (net 0) = Inl e0 \<and> attempt_body (net 1) = Inr v \<and>
        executeCloudAiTask key net sourceText sp =
          (Inr v,
           [Fetch (fetch_request key sourceText sp), SetTimeout 1000,
            Fetch (fetch_request key sourceText sp)]))
    \<or> (\<exists>e0 e1 v. attempt_body (net 0) = Inl e0 \<and> attempt_body (net 1) = Inl e1 \<and>
        attempt_body (net 2) = Inr v \<and>
        executeCloudAiTask key net sourceText sp =
          (Inr v,
           [Fetch (fetch_request key sourceText sp), SetTimeout 1000,
            Fetch (fetch_request key sourceText sp), SetTimeout 2000,
            Fetch (fetch_request key sourceText sp)]))
    \<or> (\<exists>e0 e1 e2. attempt_body (net 0) = Inl e0 \<and> attempt_body (net 1) = Inl e1 \<and>
        attempt_body (net 2) = Inl e2 \<and>
        executeCloudAiTask key net sourceText sp =
          (Inl e2,
           [Fetch (fetch_request key sourceText sp), SetTimeout 1000,
            Fetch (fetch_request key sourceText sp), SetTimeout 2000,
            Fetch (fetch_request key sourceText sp)])))
   \<and> (fst (executeCloudAiTask key net sourceText sp) = Inr generated \<longrightarrow>
        (\<exists>k r result. k < 3 \<and> net k = Fulfilled r \<and> ok r \<and> body_json r = Fulfilled result \<and>
           generatedText result = Inr (Some generated) \<and> truthy (Some generated)))
   \<and> fst (executeCloudAiTask key net sourceText sp) \<noteq> Inl MaxRetries
   \<and> (attempt < 3 \<longrightarrow> fst (retry_loop net rq attempt) \<noteq> Inl MaxRetries)"
proof (intro conjI impI)
  show "(\<exists>v. attempt_body (net 0) = Inr v \<and>
        executeCloudAiTask key net sourceText sp =
          (Inr v, [Fetch (fetch_request key sourceText sp)]))
    \<or> (\<exists>e0 v. attempt_body (net 0) = Inl e0 \<and> attempt_body (net 1) = Inr v \<and>
        executeCloudAiTask key net sourceText sp =
          (Inr v,
           [Fetch (fetch_request key sourceText sp), SetTimeout 1000,
            Fetch (fetch_request key sourceText sp)]))
    \<or> (\<exists>e0 e1 v. attempt_body (net 0) = Inl e0 \<and> attempt_body (net 1) = Inl e1 \<and>
        attempt_body (net 2) = Inr v \<and>
        executeCloudAiTask key net sourceText sp =
          (Inr v,
           [Fetch (fetch_request key sourceText sp), SetTimeout 1000,
            Fetch (fetch_request key sourceText sp), SetTimeout 2000,
            Fetch (fetch_request key sourceText sp)]))
    \<or> (\<exists>e0 e1 e2. attempt_body (net 0) = Inl e0 \<and> attempt_body (net 1) = Inl e1 \<and>
        attempt_body (net 2) = Inl e2 \<and>
        executeCloudAiTask key net sourceText sp =
          (Inl e2,
           [Fetch (fetch_request key sourceText sp), SetTimeout 1000,
            Fetch (fetch_request key sourceText sp), SetTimeout 2000,
            Fetch (fetch_request key sourceText sp)]))"
    by (rule executeCloudAiTask_outcomes)
next
  assume "fst (executeCloudAiTask key net sourceText sp) = Inr generated"
  then show "\<exists>k r result. k < 3 \<and> net k = Fulfilled r \<and> ok r \<and> body_json r = Fulfilled result \<and>
           generatedText result = Inr (Some generated) \<and> truthy (Some generated)"
    by (rule executeCloudAiTask_generated)
next
  show "fst (executeCloudAiTask key net sourceText sp) \<noteq> Inl MaxRetries"
    using attempt_body_not_MaxRetries [of "net 2"]
    by (auto simp add: executeCloudAiTask_unfold split: sum.splits)
next
  assume "attempt < 3"
  then consider "attempt = 0" | "attempt = 1" | "attempt = 2"
    by linarith
  then show "fst (retry_loop net rq attempt) \<noteq> Inl MaxRetries"
  proof cases
    case 1
    then show ?thesis
      using attempt_body_not_MaxRetries [of "net 2"]
      by (auto simp add: retry_loop_first retry_loop_second retry_loop_last split: sum.splits)
  next
    case 2
    then show ?thesis
      using attempt_body_not_MaxRetries [of "net 2"]
      by (auto simp add: retry_loop_second retry_loop_last split: sum.splits)
  next
    case 3
    then show ?thesis
      using attempt_body_not_MaxRetries [of "net 2"]
      by (auto simp add: retry_loop_last split: sum.splits)
  qed
qed

theorem C10_terminates_without_fallback_witness:
  "fst (executeCloudAiTask ''K'' (\<lambda>k. Fulfilled (generated_response (JStr ''Bonjour'')))
         ''Good morning'' ''Translate'') = Inr (JStr ''Bonjour'')
   \<and> (\<exists>(k::nat) r result. k < 3 \<and>
         Fulfilled (generated_response (JStr ''Bonjour'')) = Fulfilled r \<and>
         ok r \<and> body_json r = Fulfilled result \<and>
         generatedText result = Inr (Some (JStr ''Bonjour'')) \<and> truthy (Some (JStr ''Bonjour'')))
   \<and> fst (retry_loop (\<lambda>k. Rejected ''Failed to fetch'')
         (fetch_request ''K'' ''Good morning'' ''Translate'') 2) \<noteq> Inl MaxRetries"
proof -
  let ?net = "\<lambda>k::nat. Fulfilled (generated_response (JStr ''Bonjour''))"
  have res: "fst (executeCloudAiTask ''K'' ?net ''Good morning'' ''Translate'') = Inr (JStr ''Bonjour'')"
    by (simp add: executeCloudAiTask_unfold attempt_body_generated_response)
  note inst = C10_terminates_without_fallback [of ?net "''K''" "''Good morning''" "''Translate''" "JStr ''Bonjour''"]
  from res inst have "\<exists>k r result. k < 3 \<and> ?net k = Fulfilled r \<and>
         ok r \<and> body_json r = Fulfilled result \<and>
         generatedText result = Inr (Some (JStr ''Bonjour'')) \<and> truthy (Some (JStr ''Bonjour''))"
    by blast
  moreover have "fst (retry_loop (\<lambda>k. Rejected ''Failed to fetch'')
         (fetch_request ''K'' ''Good morning'' ''Translate'') 2) \<noteq> Inl MaxRetries"
    using C10_terminates_without_fallback [of "\<lambda>k. Rejected ''Failed to fetch''" _ _ _ _ 2
        "fetch_request ''K'' ''Good morning'' ''Translate''"]
    by simp
  ultimately show ?thesis
    using res by simp
qed

end
